theory Spec2Isabelle
  imports Main
begin

section \<open>Python values, exceptions and the outside world\<close>

text \<open>
  Python strings are modelled as \<open>string\<close>. Where the program inspects characters
  (the scraper: \<open>strip\<close>, \<open>isdigit\<close>, \<open>int\<close>, the regular expressions), a
  \<open>char\<close> is a code point in the range U+0000 .. U+00FF. Where the program only copies
  and concatenates strings (the summarizer and the mailer), a character beyond that range
  is written as its UTF-8 code units, which concatenation preserves.
\<close>

text \<open>
  The exceptions the program can meet, all of them subclasses of \<open>Exception\<close>; the
  argument is the message, what \<open>str(e)\<close> gives.
\<close>

datatype py_error =
    FileNotFoundError string
  | JSONDecodeError string
  | AttributeError string
  | TypeError string
  | KeyError string
  | ValueError string
  | OtherException string

fun str_of_error :: "py_error \<Rightarrow> string" where
  "str_of_error (FileNotFoundError m) = m"
| "str_of_error (JSONDecodeError m) = m"
| "str_of_error (AttributeError m) = m"
| "str_of_error (TypeError m) = m"
| "str_of_error (KeyError m) = m"
| "str_of_error (ValueError m) = m"
| "str_of_error (OtherException m) = m"

text \<open>
  What \<open>json.loads\<close> returns: a dictionary is an association list read with
  \<open>map_of\<close>. A float is never inspected by the program; it is kept as a mantissa and
  an exponent.
\<close>

datatype pyval =
    PNone
  | PBool bool
  | PInt int
  | PFloat int int
  | PStr string
  | PList "pyval list"
  | PDict "(string \<times> pyval) list"

text \<open>\<open>d.get(key, default)\<close>: only a dictionary has the method.\<close>

fun py_get :: "pyval \<Rightarrow> string \<Rightarrow> pyval \<Rightarrow> py_error + pyval" where
  "py_get (PDict kvs) k dflt = (case map_of kvs k of None \<Rightarrow> Inr dflt | Some v \<Rightarrow> Inr v)"
| "py_get _ k dflt = Inl (AttributeError ''get'')"

text \<open>\<open>len(x)\<close>: defined on lists, strings and dictionaries.\<close>

fun py_len :: "pyval \<Rightarrow> py_error + nat" where
  "py_len (PList xs) = Inr (length xs)"
| "py_len (PStr s) = Inr (length s)"
| "py_len (PDict kvs) = Inr (length (remdups (map fst kvs)))"
| "py_len _ = Inl (TypeError ''len'')"

text \<open>
  \<open>x[i]\<close> for a natural number \<open>i\<close>: a list or a string is indexed, a dictionary
  read from JSON has string keys only, so that an integer key is missing.
\<close>

fun py_index :: "pyval \<Rightarrow> nat \<Rightarrow> py_error + pyval" where
  "py_index (PList xs) i = (if i < length xs then Inr (xs ! i) else Inl (OtherException ''IndexError''))"
| "py_index (PStr s) i = (if i < length s then Inr (PStr [s ! i]) else Inl (OtherException ''IndexError''))"
| "py_index (PDict kvs) i = Inl (KeyError ''key'')"
| "py_index _ i = Inl (TypeError ''subscript'')"

text \<open>\<open>str(n)\<close> for a natural number.\<close>

fun str_nat :: "nat \<Rightarrow> string" where
  "str_nat n = (if n < 10 then [char_of (48 + n)]
                else str_nat (n div 10) @ [char_of (48 + n mod 10)])"

declare str_nat.simps [simp del]

text \<open>\<open>sep.join(xs)\<close>.\<close>

fun join :: "string \<Rightarrow> string list \<Rightarrow> string" where
  "join sep [] = []"
| "join sep [x] = x"
| "join sep (x # y # ys) = x @ sep @ join sep (y # ys)"

section \<open>The data model\<close>

record Product =
  name :: string
  tagline :: string
  url :: string
  image_url :: string
  topics :: "string list"
  comments_count :: int

text \<open>
  \<open>summary\<close> and \<open>why_it_matters\<close> hold whatever the model's JSON has under these keys,
  and \<open>intro\<close> likewise: a dataclass does not check its annotations.
\<close>

record ProductSummary =
  name :: string
  original_tagline :: string
  summary :: pyval
  why_it_matters :: pyval
  url :: string
  image_url :: string
  topics :: "string list"
  comments_count :: int

record DigestContent =
  intro :: pyval
  products :: "ProductSummary list"

record Recipient =
  name :: string
  email :: string

text \<open>The argument of \<open>resend.Emails.send\<close>.\<close>

record email_params =
  from_addr :: string
  to_addrs :: "string list"
  subject :: string
  html :: string
  text_body :: string

text \<open>
  What \<open>resend.Emails.send\<close> returns: a dictionary, or another object, of which only the
  attribute \<open>id\<close> is read (absent: \<open>None\<close>).
\<close>

datatype send_response = RespDict "(string \<times> pyval) list" | RespObject "pyval option"

text \<open>
  The world records every request sent out. A service answers a request from the world
  as it is at that moment, so that its answer may depend on all the requests before.
\<close>

record world =
  http_log :: "string list"
  llm_log :: "string list"
  mail_log :: "email_params list"

section \<open>The parsed page\<close>

text \<open>
  The tree \<open>BeautifulSoup(html, "html.parser")\<close> builds. A tag has its name, its
  single-valued attributes, the tokens of its \<open>class\<close> attribute (the one multi-valued
  attribute the program reads; \<open>None\<close> when the tag has none) and its children. A
  comment stands for every string that \<open>get_text\<close> leaves out.
\<close>

datatype node =
    Tag string "(string \<times> string) list" "string list option" "node list"
  | NavigableString string
  | Comment string

fun descendants :: "node \<Rightarrow> node list" where
  "descendants (Tag n as cs ns) = concat (map (\<lambda>c. c # descendants c) ns)"
| "descendants (NavigableString s) = []"
| "descendants (Comment s) = []"

fun is_tag :: "string \<Rightarrow> node \<Rightarrow> bool" where
  "is_tag n (Tag m as cs ns) = (m = n)"
| "is_tag n _ = False"

text \<open>\<open>tag.get(key)\<close>, \<open>None\<close> when the attribute is absent.\<close>

fun attr :: "node \<Rightarrow> string \<Rightarrow> string option" where
  "attr (Tag n as cs ns) k = map_of as k"
| "attr _ k = None"

fun class_tokens :: "node \<Rightarrow> string list option" where
  "class_tokens (Tag n as cs ns) = cs"
| "class_tokens _ = None"

text \<open>\<open>find_all\<close> walks the descendants in document order; \<open>find\<close> is its first result.\<close>

definition find_all :: "node \<Rightarrow> (node \<Rightarrow> bool) \<Rightarrow> node list" where
  "find_all t P = filter P (descendants t)"

definition find :: "node \<Rightarrow> (node \<Rightarrow> bool) \<Rightarrow> node option" where
  "find t P = (case find_all t P of [] \<Rightarrow> None | x # _ \<Rightarrow> Some x)"

text \<open>An attribute filter given as a pattern: an absent attribute never matches.\<close>

definition attr_matches :: "node \<Rightarrow> string \<Rightarrow> (string \<Rightarrow> bool) \<Rightarrow> bool" where
  "attr_matches t k re = (case attr t k of None \<Rightarrow> False | Some v \<Rightarrow> re v)"

subsection \<open>String operations of the scraper\<close>

definition startswith :: "string \<Rightarrow> string \<Rightarrow> bool" where
  "startswith s p = (take (length p) s = p)"

definition is_ascii_digit :: "char \<Rightarrow> bool" where
  "is_ascii_digit c = (48 \<le> (of_char c :: nat) \<and> (of_char c :: nat) \<le> 57)"

text \<open>\<open>^post-item-\d+$\<close>: \<open>$\<close> also matches before a newline that ends the string.\<close>

definition re_post_item :: "string \<Rightarrow> bool" where
  "re_post_item v =
     (startswith v ''post-item-'' \<and>
      (let r = drop 10 v; ds = takeWhile is_ascii_digit r; rest = dropWhile is_ascii_digit r
       in ds \<noteq> [] \<and> (rest = [] \<or> rest = [CHR 0x0A])))"

text \<open>\<open>^post-name-\<close> and \<open>^/topics/\<close>.\<close>

definition re_post_name :: "string \<Rightarrow> bool" where
  "re_post_name v = startswith v ''post-name-''"

definition re_topics :: "string \<Rightarrow> bool" where
  "re_topics v = startswith v ''/topics/''"

text \<open>The characters \<open>str.strip()\<close> removes, in the range U+0000 .. U+00FF.\<close>

definition is_space :: "char \<Rightarrow> bool" where
  "is_space c = (let n = (of_char c :: nat)
                 in (9 \<le> n \<and> n \<le> 13) \<or> (28 \<le> n \<and> n \<le> 32) \<or> n = 133 \<or> n = 160)"

definition strip :: "string \<Rightarrow> string" where
  "strip s = rev (dropWhile is_space (rev (dropWhile is_space s)))"

text \<open>\<open>s.split(c)[0]\<close> for a separator of one character.\<close>

definition split_first :: "char \<Rightarrow> string \<Rightarrow> string" where
  "split_first c s = takeWhile (\<lambda>x. x \<noteq> c) s"

text \<open>\<open>sub in s\<close>.\<close>

fun contains :: "string \<Rightarrow> string \<Rightarrow> bool" where
  "contains [] sub = (sub = [])"
| "contains (c # s) sub = (startswith (c # s) sub \<or> contains s sub)"

text \<open>
  \<open>str.isdigit()\<close> in that range: the decimal digits and the superscripts one, two and
  three, which \<open>int\<close> refuses.
\<close>

definition is_digit_char :: "char \<Rightarrow> bool" where
  "is_digit_char c = (is_ascii_digit c \<or> (of_char c :: nat) \<in> {178, 179, 185})"

definition isdigit :: "string \<Rightarrow> bool" where
  "isdigit s = (s \<noteq> [] \<and> list_all is_digit_char s)"

fun digits_value :: "string \<Rightarrow> int \<Rightarrow> int" where
  "digits_value [] acc = acc"
| "digits_value (c # cs) acc = digits_value cs (10 * acc + (of_char c - 48))"

text \<open>
  \<open>int(s)\<close> on a string for which \<open>isdigit\<close> holds. \<open>max_digits\<close> is the
  interpreter's limit on the length of a decimal string (0: no limit).
\<close>

definition py_int :: "nat \<Rightarrow> string \<Rightarrow> py_error + int" where
  "py_int max_digits s =
     (if \<not> list_all is_ascii_digit s \<or> s = [] then Inl (ValueError ''invalid literal for int()'')
      else if 0 < max_digits \<and> max_digits < length s then Inl (ValueError ''Exceeds the limit for integer string conversion'')
      else Inr (digits_value s 0))"

text \<open>\<open>tag.get_text(strip=True)\<close>: the strings below the tag, each stripped, the empty ones dropped.\<close>

fun stripped_string :: "node \<Rightarrow> string option" where
  "stripped_string (NavigableString s) = (if strip s = [] then None else Some (strip s))"
| "stripped_string _ = None"

definition get_text_strip :: "node \<Rightarrow> string" where
  "get_text_strip t = concat (List.map_filter stripped_string (descendants t))"

text \<open>\<open>xs[:limit]\<close>: a negative limit counts from the end.\<close>

definition slice_to :: "int \<Rightarrow> 'a list \<Rightarrow> 'a list" where
  "slice_to limit xs =
     (if 0 \<le> limit then take (nat limit) xs else take (nat (int (length xs) + limit)) xs)"

section \<open>The configuration file\<close>

text \<open>
  What \<open>yaml.safe_load\<close> gives for \<open>config.yaml\<close>, taken well typed: every section and
  every key may be absent (\<open>None\<close>), and a key that is present has a value of the type
  the program expects.
\<close>

record settings_section =
  product_count :: "int option"
  product_hunt_url :: "string option"

record email_section =
  from_key :: "string option"
  subject_prefix_key :: "string option"

record gemini_section =
  model_key :: "string option"

record recipient_entry =
  name_key :: "string option"
  email_key :: "string option"

record config =
  settings_key :: "settings_section option"
  email_section_key :: "email_section option"
  gemini_key :: "gemini_section option"
  recipients_key :: "recipient_entry list option"

section \<open>The services of one run\<close>

text \<open>
  The libraries and remote services the program calls, as they are configured for one
  run. \<open>requests_get\<close> is \<open>requests.get\<close> followed by \<open>raise_for_status\<close> and the
  reading of the body; \<open>generate_content\<close> is the model call followed by the reading of
  \<open>response.text\<close>. \<open>generate_html_email\<close> renders the HTML body of the message: it
  puts the values of the digest into formatted strings, which takes any value and does
  not raise, and nothing below depends on the text it produces. \<open>py_str\<close> is what a
  formatted string makes of a value that is not a string. \<open>getenv\<close> reads the
  environment after \<open>load_dotenv\<close>; \<open>yaml_safe_load\<close> opens the file and parses it.
\<close>

record date =
  year :: nat
  month :: nat
  day :: nat

record services =
  requests_get :: "world \<Rightarrow> string \<Rightarrow> py_error + string"
  BeautifulSoup :: "string \<Rightarrow> node"
  int_max_str_digits :: nat
  generate_content :: "world \<Rightarrow> string \<Rightarrow> py_error + string"
  json_loads :: "string \<Rightarrow> py_error + pyval"
  Emails_send :: "world \<Rightarrow> email_params \<Rightarrow> py_error + send_response"
  generate_html_email :: "DigestContent \<Rightarrow> string"
  py_str :: "pyval \<Rightarrow> string"
  datetime_now :: "world \<Rightarrow> date"
  getenv :: "string \<Rightarrow> string option"
  path_exists :: "string \<Rightarrow> bool"
  yaml_safe_load :: "string \<Rightarrow> py_error + config"

section \<open>scraper.py\<close>

text \<open>The loop over the buttons that finds the comment count.\<close>

fun comments_loop :: "services \<Rightarrow> node list \<Rightarrow> py_error + int" where
  "comments_loop sv [] = Inr 0"
| "comments_loop sv (button # buttons) =
     (case find button (is_tag ''p'') of
        None \<Rightarrow> comments_loop sv buttons
      | Some p_tag \<Rightarrow>
          (let text = get_text_strip p_tag
           in if isdigit text then py_int (int_max_str_digits sv) text
              else comments_loop sv buttons))"

text \<open>The class filter \<open>lambda c: c and "text-secondary" in c\<close>, tried on each token and then on the tokens joined.\<close>

definition text_secondary :: "string \<Rightarrow> bool" where
  "text_secondary c = (c \<noteq> [] \<and> contains c ''text-secondary'')"

definition class_matches :: "node \<Rightarrow> bool" where
  "class_matches t =
     (case class_tokens t of
        None \<Rightarrow> False
      | Some cs \<Rightarrow> list_ex text_secondary cs \<or> text_secondary (join '' '' cs))"

text \<open>The body of \<open>_parse_product_section\<close>, inside its \<open>try\<close>.\<close>

definition parse_product_section_body :: "services \<Rightarrow> string \<Rightarrow> node \<Rightarrow> py_error + Product option" where
  "parse_product_section_body sv base_url section =
     (case find section (\<lambda>t. is_tag ''span'' t \<and> attr_matches t ''data-test'' re_post_name) of
        None \<Rightarrow> Inr None
      | Some name_span \<Rightarrow>
     (case find name_span (is_tag ''a'') of
        None \<Rightarrow> Inr None
      | Some name_link \<Rightarrow>
          (let nm = get_text_strip name_link;
               product_path = (case attr name_link ''href'' of None \<Rightarrow> [] | Some h \<Rightarrow> h);
               u = (if startswith product_path ''/'' then base_url @ product_path else product_path);
               tl = (case find section (\<lambda>t. is_tag ''span'' t \<and> class_matches t) of
                       None \<Rightarrow> [] | Some tagline_span \<Rightarrow> get_text_strip tagline_span);
               img_url =
                 (case find section (is_tag ''img'') of
                    None \<Rightarrow> []
                  | Some img \<Rightarrow>
                      (let srcset = (case attr img ''srcset'' of None \<Rightarrow> [] | Some v \<Rightarrow> v)
                       in if srcset \<noteq> []
                          then split_first CHR '' '' (strip (split_first CHR '','' srcset))
                          else (case attr img ''src'' of None \<Rightarrow> [] | Some v \<Rightarrow> v)));
               tps = filter (\<lambda>topic_text. topic_text \<noteq> [])
                       (map get_text_strip
                          (find_all section (\<lambda>t. is_tag ''a'' t \<and> attr_matches t ''href'' re_topics)))
           in case comments_loop sv (find_all section (is_tag ''button'')) of
                Inl e \<Rightarrow> Inl e
              | Inr cc \<Rightarrow>
                  Inr (Some \<lparr>Product.name = nm, tagline = tl, url = u, image_url = img_url,
                             topics = tps, comments_count = cc\<rparr>))))"

text \<open>\<open>_parse_product_section\<close>: any exception of the body is caught and gives \<open>None\<close>.\<close>

definition parse_product_section :: "services \<Rightarrow> string \<Rightarrow> node \<Rightarrow> Product option" where
  "parse_product_section sv base_url section =
     (case parse_product_section_body sv base_url section of
        Inl e \<Rightarrow> None
      | Inr r \<Rightarrow> r)"

text \<open>The loop of \<open>parse_products\<close> over the sections, appending to \<open>acc\<close>.\<close>

fun parse_loop :: "services \<Rightarrow> string \<Rightarrow> node list \<Rightarrow> Product list \<Rightarrow> Product list" where
  "parse_loop sv base_url [] acc = acc"
| "parse_loop sv base_url (section # sections) acc =
     (case parse_product_section sv base_url section of
        None \<Rightarrow> parse_loop sv base_url sections acc
      | Some product \<Rightarrow> parse_loop sv base_url sections (acc @ [product]))"

definition product_sections :: "node \<Rightarrow> node list" where
  "product_sections soup =
     find_all soup (\<lambda>t. is_tag ''section'' t \<and> attr_matches t ''data-test'' re_post_item)"

definition parse_products :: "services \<Rightarrow> string \<Rightarrow> string \<Rightarrow> int \<Rightarrow> Product list" where
  "parse_products sv base_url html_text limit =
     (let soup = BeautifulSoup sv html_text
      in parse_loop sv base_url (slice_to limit (product_sections soup)) [])"

definition fetch_homepage :: "services \<Rightarrow> string \<Rightarrow> world \<Rightarrow> (py_error + string) \<times> world" where
  "fetch_homepage sv base_url w =
     (requests_get sv w base_url, w\<lparr>http_log := http_log w @ [base_url]\<rparr>)"

definition get_top_products :: "services \<Rightarrow> string \<Rightarrow> int \<Rightarrow> world \<Rightarrow> (py_error + Product list) \<times> world" where
  "get_top_products sv base_url limit w =
     (case fetch_homepage sv base_url w of
        (Inl e, w') \<Rightarrow> (Inl e, w')
      | (Inr html_text, w') \<Rightarrow> (Inr (parse_products sv base_url html_text limit), w'))"

definition fetch_products :: "services \<Rightarrow> string \<Rightarrow> int \<Rightarrow> world \<Rightarrow> (py_error + Product list) \<times> world" where
  "fetch_products sv base_url limit w = get_top_products sv base_url limit w"

section \<open>summarizer.py\<close>

definition product_info_line :: "nat \<Rightarrow> Product \<Rightarrow> string" where
  "product_info_line i p =
     ''Product '' @ str_nat (i + 1) @ '':'' @ [CHR 0x0A] @
     ''- Name: '' @ Product.name p @ [CHR 0x0A] @
     ''- Tagline: '' @ tagline p @ [CHR 0x0A] @
     ''- Topics: '' @ (if Product.topics p \<noteq> [] then join '', '' (Product.topics p) else ''N/A'')"

definition build_prompt :: "Product list \<Rightarrow> string" where
  "build_prompt prods =
     (let product_info = join [CHR 0x0A, CHR 0x0A] (map (\<lambda>(i, p). product_info_line i p) (enumerate 0 prods))
      in ''Please summarize these '' @ str_nat (length prods) @
         '' Product Hunt launches for today's digest:'' @ [CHR 0x0A, CHR 0x0A] @
         product_info @ [CHR 0x0A, CHR 0x0A] @
         ''Remember to provide a JSON response with summaries for each product and a brief intro.'')"

definition fallback_intro :: string where
  "fallback_intro = ''Here are today's top Product Hunt launches!''"

text \<open>\<open>_create_fallback_digest\<close>.\<close>

definition create_fallback_digest :: "Product list \<Rightarrow> DigestContent" where
  "create_fallback_digest prods =
     \<lparr>intro = PStr fallback_intro,
      products = map (\<lambda>p. \<lparr>ProductSummary.name = Product.name p,
                             original_tagline = tagline p,
                             summary = PStr (tagline p),
                             why_it_matters = PStr ''Check it out on Product Hunt!'',
                             url = Product.url p,
                             image_url = Product.image_url p,
                             topics = Product.topics p,
                             comments_count = Product.comments_count p\<rparr>) prods\<rparr>"

text \<open>
  The body of the loop that builds the \<open>ProductSummary\<close> objects, for the product at
  index \<open>i\<close>: the entry of the response at that index, or an empty dictionary.
\<close>

definition product_summary_at :: "pyval \<Rightarrow> nat \<Rightarrow> Product \<Rightarrow> py_error + ProductSummary" where
  "product_summary_at result i product =
     (case py_get result ''products'' (PList []) of
        Inl e \<Rightarrow> Inl e
      | Inr arr \<Rightarrow>
     (case py_len arr of
        Inl e \<Rightarrow> Inl e
      | Inr n \<Rightarrow>
     (case (if i < n then py_index arr i else Inr (PDict [])) of
        Inl e \<Rightarrow> Inl e
      | Inr summary_data \<Rightarrow>
     (case py_get summary_data ''summary'' (PStr (tagline product)) of
        Inl e \<Rightarrow> Inl e
      | Inr s \<Rightarrow>
     (case py_get summary_data ''why_it_matters'' (PStr []) of
        Inl e \<Rightarrow> Inl e
      | Inr wim \<Rightarrow>
          Inr \<lparr>ProductSummary.name = Product.name product,
               original_tagline = tagline product,
               summary = s,
               why_it_matters = wim,
               url = Product.url product,
               image_url = Product.image_url product,
               topics = Product.topics product,
               comments_count = Product.comments_count product\<rparr>)))))"

text \<open>
  The loop itself: \<open>i\<close> is the index of the first remaining product, \<open>summaries\<close> the
  list built so far. An exception leaves the loop.
\<close>

fun summaries_loop :: "pyval \<Rightarrow> nat \<Rightarrow> Product list \<Rightarrow> ProductSummary list \<Rightarrow> py_error + ProductSummary list" where
  "summaries_loop result i [] summaries = Inr summaries"
| "summaries_loop result i (product # rest) summaries =
     (case product_summary_at result i product of
        Inl e \<Rightarrow> Inl e
      | Inr s \<Rightarrow> summaries_loop result (Suc i) rest (summaries @ [s]))"

text \<open>
  \<open>GeminiSummarizer.summarize_products\<close>. Only \<open>json.JSONDecodeError\<close> is caught; the
  model call stands outside the \<open>try\<close>.
\<close>

definition GeminiSummarizer_summarize_products ::
  "services \<Rightarrow> Product list \<Rightarrow> world \<Rightarrow> (py_error + DigestContent) \<times> world" where
  "GeminiSummarizer_summarize_products sv prods w =
     (if prods = [] then (Inr \<lparr>intro = PStr ''No products found today.'', products = []\<rparr>, w)
      else
        (let prompt = build_prompt prods;
             w' = w\<lparr>llm_log := llm_log w @ [prompt]\<rparr>
         in case generate_content sv w prompt of
              Inl e \<Rightarrow> (Inl e, w')
            | Inr response_text \<Rightarrow>
                (case json_loads sv response_text of
                   Inl (JSONDecodeError m) \<Rightarrow> (Inr (create_fallback_digest prods), w')
                 | Inl e \<Rightarrow> (Inl e, w')
                 | Inr result \<Rightarrow>
                     (case summaries_loop result 0 prods [] of
                        Inl e \<Rightarrow> (Inl e, w')
                      | Inr summaries \<Rightarrow>
                          (case py_get result ''intro'' (PStr fallback_intro) of
                             Inl e \<Rightarrow> (Inl e, w')
                           | Inr i \<Rightarrow> (Inr \<lparr>intro = i, products = summaries\<rparr>, w'))))))"

text \<open>\<open>api_key or os.getenv(var)\<close>, and the check that follows it in both constructors.\<close>

definition resolve_api_key :: "services \<Rightarrow> string option \<Rightarrow> string \<Rightarrow> string \<Rightarrow> py_error + string" where
  "resolve_api_key sv api_key var msg =
     (let k = (case api_key of
                 None \<Rightarrow> getenv sv var
               | Some a \<Rightarrow> if a \<noteq> [] then Some a else getenv sv var)
      in case k of
           None \<Rightarrow> Inl (ValueError msg)
         | Some a \<Rightarrow> if a = [] then Inl (ValueError msg) else Inr a)"

text \<open>The module's \<open>summarize_products\<close>: the constructor, then the method.\<close>

definition summarize_products ::
  "services \<Rightarrow> Product list \<Rightarrow> string option \<Rightarrow> string \<Rightarrow> world \<Rightarrow> (py_error + DigestContent) \<times> world" where
  "summarize_products sv prods api_key model_name w =
     (case resolve_api_key sv api_key ''GEMINI_API_KEY''
             ''GEMINI_API_KEY is required. Set it in .env or pass it directly.'' of
        Inl e \<Rightarrow> (Inl e, w)
      | Inr k \<Rightarrow> GeminiSummarizer_summarize_products sv prods w)"

section \<open>mailer.py\<close>

text \<open>\<open>strftime("%Y-%m-%d")\<close>: the year on four digits, month and day on two.\<close>

definition zfill :: "nat \<Rightarrow> string \<Rightarrow> string" where
  "zfill n s = replicate (n - length s) CHR ''0'' @ s"

definition strftime_Ymd :: "date \<Rightarrow> string" where
  "strftime_Ymd d =
     zfill 4 (str_nat (year d)) @ ''-'' @ zfill 2 (str_nat (month d)) @ ''-'' @ zfill 2 (str_nat (day d))"

text \<open>\<open>strftime("%B %d, %Y")\<close>, with the month names of the C locale.\<close>

definition month_name :: "nat \<Rightarrow> string" where
  "month_name m =
     (if 1 \<le> m \<and> m \<le> 12
      then [''January'', ''February'', ''March'', ''April'', ''May'', ''June'', ''July'',
            ''August'', ''September'', ''October'', ''November'', ''December''] ! (m - 1)
      else [])"

definition strftime_BdY :: "date \<Rightarrow> string" where
  "strftime_BdY d =
     month_name (month d) @ '' '' @ zfill 2 (str_nat (day d)) @ '', '' @ zfill 4 (str_nat (year d))"

text \<open>The symbols of the text body, in UTF-8: rocket, light bulb, speech balloon, link, star.\<close>

definition rocket :: string where
  "rocket = [CHR 0xF0, CHR 0x9F, CHR 0x9A, CHR 0x80]"

definition light_bulb :: string where
  "light_bulb = [CHR 0xF0, CHR 0x9F, CHR 0x92, CHR 0xA1]"

definition speech_balloon :: string where
  "speech_balloon = [CHR 0xF0, CHR 0x9F, CHR 0x92, CHR 0xAC]"

definition link_symbol :: string where
  "link_symbol = [CHR 0xF0, CHR 0x9F, CHR 0x94, CHR 0x97]"

definition star :: string where
  "star = [CHR 0xE2, CHR 0xAD, CHR 0x90]"

text \<open>What a formatted string makes of a value, and \<open>str(i)\<close> for an integer.\<close>

definition format_value :: "services \<Rightarrow> pyval \<Rightarrow> string" where
  "format_value sv v = (case v of PStr s \<Rightarrow> s | _ \<Rightarrow> py_str sv v)"

definition str_int :: "int \<Rightarrow> string" where
  "str_int i = (if i < 0 then ''-'' @ str_nat (nat (- i)) else str_nat (nat i))"

text \<open>The truth value of \<open>if x:\<close>.\<close>

fun py_truthy :: "pyval \<Rightarrow> bool" where
  "py_truthy PNone = False"
| "py_truthy (PBool b) = b"
| "py_truthy (PInt i) = (i \<noteq> 0)"
| "py_truthy (PFloat m e) = (m \<noteq> 0)"
| "py_truthy (PStr s) = (s \<noteq> [])"
| "py_truthy (PList xs) = (xs \<noteq> [])"
| "py_truthy (PDict kvs) = (kvs \<noteq> [])"

text \<open>The lines \<open>generate_text_email\<close> adds for the product of rank \<open>i\<close>.\<close>

definition product_lines :: "services \<Rightarrow> nat \<Rightarrow> ProductSummary \<Rightarrow> string list" where
  "product_lines sv i product =
     [''#'' @ str_nat i @ '' '' @ ProductSummary.name product,
      ''   '' @ [CHR 0x22] @ original_tagline product @ [CHR 0x22],
      [],
      ''   '' @ format_value sv (summary product),
      []] @
     (if py_truthy (why_it_matters product)
      then [''   '' @ light_bulb @ '' Why it matters: '' @ format_value sv (why_it_matters product), []]
      else []) @
     [''   '' @ speech_balloon @ '' '' @ str_int (ProductSummary.comments_count product) @ '' comments'',
      ''   '' @ link_symbol @ '' '' @ ProductSummary.url product,
      [],
      replicate 50 CHR ''-'',
      []]"

text \<open>
  \<open>generate_text_email\<close>. Every line is a string but \<open>digest.intro\<close>, which goes into
  the list as it is: for an intro that is not a string the final \<open>"\n".join(lines)\<close>
  raises \<open>TypeError\<close>.
\<close>

definition generate_text_email :: "services \<Rightarrow> DigestContent \<Rightarrow> world \<Rightarrow> py_error + string" where
  "generate_text_email sv digest w =
     (let today = strftime_BdY (datetime_now sv w)
      in case intro digest of
           PStr intro_text \<Rightarrow>
             Inr (join [CHR 0x0A]
                    ([rocket @ '' PRODUCT HUNT DAILY DIGEST'', ''   '' @ today, [],
                      replicate 50 CHR ''='', [], intro_text, [], replicate 50 CHR ''='', [],
                      ''TODAY'S TOP LAUNCHES'', []] @
                     concat (map (\<lambda>(i, product). product_lines sv i product)
                               (enumerate 1 (products digest))) @
                     [''Powered by Product Hunt & Gemini AI'', [],
                      star @ '' Star on GitHub: https://github.com/eyupucmaz/product-hunt-mailer'',
                      []]))
         | _ \<Rightarrow> Inl (TypeError ''sequence item 5: expected str instance''))"

text \<open>The subject of \<open>send_digest\<close>: \<open>f"{subject_prefix} - {today}"\<close>.\<close>

definition subject_line :: "services \<Rightarrow> string \<Rightarrow> world \<Rightarrow> string" where
  "subject_line sv subject_prefix w =
     (let today = strftime_Ymd (datetime_now sv w)
      in subject_prefix @ '' - '' @ today)"

text \<open>The dictionary handed to \<open>resend.Emails.send\<close> for one recipient.\<close>

definition send_params :: "string \<Rightarrow> string \<Rightarrow> string \<Rightarrow> string \<Rightarrow> Recipient \<Rightarrow> email_params" where
  "send_params from_email subj html_content text_content recipient =
     \<lparr>from_addr = from_email, to_addrs = [email recipient], subject = subj,
      html = html_content, text_body = text_content\<rparr>"

text \<open>\<open>response.get("id") if isinstance(response, dict) else getattr(response, "id", None)\<close>.\<close>

fun response_id :: "send_response \<Rightarrow> pyval" where
  "response_id (RespDict kvs) = (case map_of kvs ''id'' of None \<Rightarrow> PNone | Some v \<Rightarrow> v)"
| "response_id (RespObject a) = (case a of None \<Rightarrow> PNone | Some v \<Rightarrow> v)"

text \<open>The two dictionaries a recipient's result can be.\<close>

definition sent_result :: "Recipient \<Rightarrow> send_response \<Rightarrow> (string \<times> pyval) list" where
  "sent_result recipient response =
     [(''recipient'', PStr (email recipient)), (''status'', PStr ''sent''), (''id'', response_id response)]"

definition failed_result :: "Recipient \<Rightarrow> py_error \<Rightarrow> (string \<times> pyval) list" where
  "failed_result recipient e =
     [(''recipient'', PStr (email recipient)), (''status'', PStr ''failed''), (''error'', PStr (str_of_error e))]"

text \<open>
  The loop over the recipients: \<open>results\<close> is the list built so far. Every exception of
  the delivery call is caught inside the loop. The console line of each recipient is left
  out.
\<close>

fun send_loop ::
  "services \<Rightarrow> string \<Rightarrow> string \<Rightarrow> string \<Rightarrow> string \<Rightarrow> Recipient list \<Rightarrow>
   (string \<times> pyval) list list \<Rightarrow> world \<Rightarrow> (string \<times> pyval) list list \<times> world" where
  "send_loop sv from_email subj html_content text_content [] results w = (results, w)"
| "send_loop sv from_email subj html_content text_content (recipient # rest) results w =
     (let params = send_params from_email subj html_content text_content recipient;
          w' = w\<lparr>mail_log := mail_log w @ [params]\<rparr>
      in case Emails_send sv w params of
           Inr response \<Rightarrow>
             send_loop sv from_email subj html_content text_content rest
               (results @ [sent_result recipient response]) w'
         | Inl e \<Rightarrow>
             send_loop sv from_email subj html_content text_content rest
               (results @ [failed_result recipient e]) w')"

text \<open>
  \<open>EmailSender.send_digest\<close>. The two bodies are rendered before the loop and outside
  its \<open>try\<close>: an exception of the rendering leaves the method before any message is sent.
\<close>

definition EmailSender_send_digest ::
  "services \<Rightarrow> DigestContent \<Rightarrow> Recipient list \<Rightarrow> string \<Rightarrow> string \<Rightarrow> world \<Rightarrow>
   (py_error + (string \<times> pyval) list list) \<times> world" where
  "EmailSender_send_digest sv digest recipients from_email subject_prefix w =
     (let subj = subject_line sv subject_prefix w;
          html_content = generate_html_email sv digest
      in case generate_text_email sv digest w of
           Inl e \<Rightarrow> (Inl e, w)
         | Inr text_content \<Rightarrow>
             (case send_loop sv from_email subj html_content text_content recipients [] w of
                (results, w') \<Rightarrow> (Inr results, w')))"

text \<open>The module's \<open>send_digest\<close>: the constructor, then the method.\<close>

definition send_digest ::
  "services \<Rightarrow> DigestContent \<Rightarrow> Recipient list \<Rightarrow> string \<Rightarrow> string \<Rightarrow> string option \<Rightarrow> world \<Rightarrow>
   (py_error + (string \<times> pyval) list list) \<times> world" where
  "send_digest sv digest recipients from_email subject_prefix api_key w =
     (case resolve_api_key sv api_key ''RESEND_API_KEY''
             ''RESEND_API_KEY is required. Set it in .env or pass it directly.'' of
        Inl e \<Rightarrow> (Inl e, w)
      | Inr k \<Rightarrow> EmailSender_send_digest sv digest recipients from_email subject_prefix w)"

section \<open>main.py\<close>

definition load_config :: "services \<Rightarrow> string \<Rightarrow> py_error + config" where
  "load_config sv config_path =
     (if \<not> path_exists sv config_path
      then Inl (FileNotFoundError (''Configuration file not found: '' @ config_path))
      else yaml_safe_load sv config_path)"

text \<open>\<open>d.get(key, default)\<close> on a section that may itself be absent.\<close>

definition get_or :: "'s option \<Rightarrow> ('s \<Rightarrow> 'a option) \<Rightarrow> 'a \<Rightarrow> 'a" where
  "get_or section key dflt =
     (case section of
        None \<Rightarrow> dflt
      | Some sec \<Rightarrow> (case key sec of None \<Rightarrow> dflt | Some v \<Rightarrow> v))"

definition config_product_count :: "config \<Rightarrow> int" where
  "config_product_count cfg = get_or (settings_key cfg) product_count 5"

definition config_base_url :: "config \<Rightarrow> string" where
  "config_base_url cfg = get_or (settings_key cfg) product_hunt_url ''https://www.producthunt.com''"

definition config_from_email :: "config \<Rightarrow> string" where
  "config_from_email cfg =
     get_or (email_section_key cfg) from_key ''Product Hunt Digest <digest@example.com>''"

definition config_subject_prefix :: "config \<Rightarrow> string" where
  "config_subject_prefix cfg =
     get_or (email_section_key cfg) subject_prefix_key (rocket @ '' Product Hunt Daily'')"

definition config_model_name :: "config \<Rightarrow> string" where
  "config_model_name cfg = get_or (gemini_key cfg) model_key ''gemini-3-flash-preview''"

text \<open>The recipients: the entries whose \<open>email\<close> is present and not empty.\<close>

definition config_recipients :: "config \<Rightarrow> Recipient list" where
  "config_recipients cfg =
     map (\<lambda>r. \<lparr>Recipient.name = (case name_key r of None \<Rightarrow> [] | Some n \<Rightarrow> n),
               email = (case email_key r of None \<Rightarrow> [] | Some e \<Rightarrow> e)\<rparr>)
       (filter (\<lambda>r. case email_key r of None \<Rightarrow> False | Some e \<Rightarrow> e \<noteq> [])
          (case recipients_key cfg of None \<Rightarrow> [] | Some rs \<Rightarrow> rs))"

text \<open>\<open>r.get("status") == "sent"\<close>.\<close>

definition is_sent :: "(string \<times> pyval) list \<Rightarrow> bool" where
  "is_sent r = (map_of r ''status'' = Some (PStr ''sent''))"

text \<open>
  \<open>main\<close>: \<open>Inr\<close> is the value it returns, \<open>Inl\<close> an exception that leaves it. What it
  prints is left out.
\<close>

definition main :: "services \<Rightarrow> world \<Rightarrow> (py_error + int) \<times> world" where
  "main sv w =
     (case load_config sv ''config.yaml'' of
        Inl (FileNotFoundError m) \<Rightarrow> (Inr 1, w)
      | Inl e \<Rightarrow> (Inl e, w)
      | Inr cfg \<Rightarrow>
          (let recipients = config_recipients cfg
           in if recipients = [] then (Inr 1, w)
              else
                (case fetch_products sv (config_base_url cfg) (config_product_count cfg) w of
                   (Inl e, w1) \<Rightarrow> (Inr 1, w1)
                 | (Inr prods, w1) \<Rightarrow>
                     if prods = [] then (Inr 0, w1)
                     else
                       (case summarize_products sv prods None (config_model_name cfg) w1 of
                          (Inl e, w2) \<Rightarrow> (Inr 1, w2)
                        | (Inr digest, w2) \<Rightarrow>
                            (case send_digest sv digest recipients (config_from_email cfg)
                                    (config_subject_prefix cfg) None w2 of
                               (Inl e, w3) \<Rightarrow> (Inr 1, w3)
                             | (Inr results, w3) \<Rightarrow>
                                 (let successful = int (length (filter is_sent results));
                                      failed = int (length results) - successful
                                  in (Inr (if failed = 0 then 0 else 1), w3)))))))"

text \<open>\<open>sys.exit(main())\<close>: an exception that leaves \<open>main\<close> ends the process with status 1.\<close>

definition exit_status :: "py_error + int \<Rightarrow> int" where
  "exit_status r = (case r of Inl e \<Rightarrow> 1 | Inr c \<Rightarrow> c)"

section \<open>Vocabulary of the properties\<close>

text \<open>
  A summary copies a product: the fields a \<open>ProductSummary\<close> takes over from its
  \<open>Product\<close> are equal to the product's.
\<close>

definition copies_product :: "ProductSummary \<Rightarrow> Product \<Rightarrow> bool" where
  "copies_product s p =
     (ProductSummary.name s = Product.name p \<and> original_tagline s = tagline p \<and>
      ProductSummary.url s = Product.url p \<and> ProductSummary.image_url s = Product.image_url p \<and>
      ProductSummary.topics s = Product.topics p \<and>
      ProductSummary.comments_count s = Product.comments_count p)"

text \<open>
  A listing section lacks a name element: it has no span whose \<open>data-test\<close> begins with
  \<open>post-name-\<close>, or the first such span has no anchor below it.
\<close>

definition lacks_name_element :: "node \<Rightarrow> bool" where
  "lacks_name_element section =
     (case find section (\<lambda>t. is_tag ''span'' t \<and> attr_matches t ''data-test'' re_post_name) of
        None \<Rightarrow> True
      | Some sp \<Rightarrow> find sp (is_tag ''a'') = None)"

text \<open>The decimal digit \<open>n\<close> as a character.\<close>

definition digit_char :: "nat \<Rightarrow> char" where
  "digit_char n = char_of (48 + n)"

text \<open>
  The message \<open>send_digest\<close> builds for a recipient (with an empty text body where the
  rendering raises and no message is built), and the answers of the provider to a list
  of messages sent one after the other from the world \<open>w\<close>.
\<close>

definition digest_params ::
  "services \<Rightarrow> DigestContent \<Rightarrow> string \<Rightarrow> string \<Rightarrow> world \<Rightarrow> Recipient \<Rightarrow> email_params" where
  "digest_params sv digest from_email subject_prefix w recipient =
     send_params from_email (subject_line sv subject_prefix w)
       (generate_html_email sv digest)
       (case generate_text_email sv digest w of Inl e \<Rightarrow> [] | Inr text_content \<Rightarrow> text_content)
       recipient"

fun delivery_replies :: "services \<Rightarrow> email_params list \<Rightarrow> world \<Rightarrow> (py_error + send_response) list" where
  "delivery_replies sv [] w = []"
| "delivery_replies sv (p # ps) w =
     Emails_send sv w p # delivery_replies sv ps (w\<lparr>mail_log := mail_log w @ [p]\<rparr>)"

fun succeeded :: "py_error + send_response \<Rightarrow> bool" where
  "succeeded (Inr response) = True"
| "succeeded (Inl e) = False"

section \<open>Test doubles\<close>

definition empty_world :: world where
  "empty_world = \<lparr>http_log = [], llm_log = [], mail_log = []\<rparr>"

definition demo_config :: config where
  "demo_config =
     \<lparr>settings_key = None, email_section_key = None, gemini_key = None,
      recipients_key = Some [\<lparr>name_key = Some ''Ada'', email_key = Some ''ada@example.com''\<rparr>,
                             \<lparr>name_key = Some ''Bob'', email_key = Some ''bob@example.com''\<rparr>]\<rparr>"

text \<open>
  Services with scripted answers: the parsed page, the answer of the model, what
  \<open>json.loads\<close> makes of it, and the answer of the mail provider for each address.
\<close>

definition demo_services ::
  "node \<Rightarrow> (py_error + string) \<Rightarrow> (py_error + pyval) \<Rightarrow> (string \<Rightarrow> py_error + send_response) \<Rightarrow> services" where
  "demo_services soup llm parsed mail =
     \<lparr>requests_get = (\<lambda>w u. Inr ''<html>''),
      BeautifulSoup = (\<lambda>h. soup),
      int_max_str_digits = 4300,
      generate_content = (\<lambda>w p. llm),
      json_loads = (\<lambda>t. parsed),
      Emails_send = (\<lambda>w p. mail (concat (to_addrs p))),
      generate_html_email = (\<lambda>d. ''<html>digest</html>''),
      py_str = (\<lambda>v. ''value''),
      datetime_now = (\<lambda>w. \<lparr>year = 2024, month = 5, day = 1\<rparr>),
      getenv = (\<lambda>v. Some ''key''),
      path_exists = (\<lambda>p. True),
      yaml_safe_load = (\<lambda>p. Inr demo_config)\<rparr>"

definition demo_product :: "string \<Rightarrow> string \<Rightarrow> Product" where
  "demo_product n t =
     \<lparr>Product.name = n, tagline = t, url = ''https://www.producthunt.com/posts/'' @ n,
      image_url = ''https://ph-files.imgix.net/'' @ n, topics = [''Tech''], comments_count = 7\<rparr>"

definition three_products :: "Product list" where
  "three_products = [demo_product ''alpha'' ''First tagline'', demo_product ''beta'' ''Second tagline'',
                     demo_product ''gamma'' ''Third tagline'']"

definition two_entries :: "pyval list" where
  "two_entries = [PDict [(''name'', PStr ''zeta''), (''summary'', PStr ''S1''), (''why_it_matters'', PStr ''W1'')],
                  PDict [(''name'', PStr ''alpha''), (''summary'', PStr ''S2''), (''why_it_matters'', PStr ''W2'')]]"

definition two_entry_response :: "(string \<times> pyval) list" where
  "two_entry_response = [(''products'', PList two_entries), (''intro'', PStr ''Hello'')]"

definition demo_text_span :: "string \<Rightarrow> node" where
  "demo_text_span t = Tag ''span'' [] (Some [''text-16'', ''text-secondary'']) [NavigableString t]"

definition demo_name_span :: "string \<Rightarrow> string \<Rightarrow> node" where
  "demo_name_span slug title =
     Tag ''span'' [(''data-test'', ''post-name-'' @ slug)] None
       [Tag ''a'' [(''href'', ''/posts/'' @ slug)] None [NavigableString title]]"

definition full_section :: node where
  "full_section =
     Tag ''section'' [(''data-test'', ''post-item-101'')] None
       [Tag ''img'' [(''srcset'', ''https://img.example/a.png 1x, https://img.example/a2.png 2x''),
                    (''src'', ''https://img.example/a-small.png'')] None [],
        demo_name_span ''alpha'' '' Alpha '',
        demo_text_span ''First tagline'',
        Tag ''a'' [(''href'', ''/topics/tech'')] None [NavigableString ''Tech''],
        Tag ''button'' [] None [Tag ''p'' [] None [NavigableString ''12'']]]"

definition nameless_section :: node where
  "nameless_section =
     Tag ''section'' [(''data-test'', ''post-item-102'')] None [demo_text_span ''An advertisement'']"

definition plain_section :: node where
  "plain_section =
     Tag ''section'' [(''data-test'', ''post-item-103'')] None [demo_name_span ''gamma'' ''Gamma'']"

definition anchorless_section :: node where
  "anchorless_section =
     Tag ''section'' [(''data-test'', ''post-item-104'')] None
       [Tag ''span'' [(''data-test'', ''post-name-delta'')] None [NavigableString ''Delta'']]"

definition demo_soup :: node where
  "demo_soup =
     Tag ''[document]'' [] None
       [Tag ''div'' [] None [full_section, nameless_section],
        Tag ''section'' [(''data-test'', ''sidebar'')] None [],
        plain_section]"

text \<open>No mail provider answer is needed where no mail is sent.\<close>

definition no_mail :: "string \<Rightarrow> py_error + send_response" where
  "no_mail a = Inl (OtherException ''unused'')"

definition invalid_json_services :: services where
  "invalid_json_services =
     demo_services demo_soup (Inr ''I cannot answer in JSON'')
       (Inl (JSONDecodeError ''Expecting value: line 1 column 1 (char 0)'')) no_mail"

definition short_response_services :: services where
  "short_response_services =
     demo_services demo_soup (Inr ''{...}'') (Inr (PDict two_entry_response)) no_mail"


text \<open>The products of the demo page, and the world after it has been fetched.\<close>

definition demo_page_products :: "Product list" where
  "demo_page_products =
     [\<lparr>Product.name = ''Alpha'', tagline = ''First tagline'',
       url = ''https://www.producthunt.com/posts/alpha'',
       image_url = ''https://img.example/a.png'', topics = [''Tech''], comments_count = 12\<rparr>,
      \<lparr>Product.name = ''Gamma'', tagline = [],
       url = ''https://www.producthunt.com/posts/gamma'', image_url = [],
       topics = [], comments_count = 0\<rparr>]"

definition fetched_world :: world where
  "fetched_world = \<lparr>http_log = [''https://www.producthunt.com''], llm_log = [], mail_log = []\<rparr>"

text \<open>A date written \<open>YYYY-MM-DD\<close>, digit by digit.\<close>

definition iso_date :: "date \<Rightarrow> string" where
  "iso_date d =
     [digit_char (year d div 1000), digit_char (year d div 100 mod 10),
      digit_char (year d div 10 mod 10), digit_char (year d mod 10)] @ ''-'' @
     [digit_char (month d div 10), digit_char (month d mod 10)] @ ''-'' @
     [digit_char (day d div 10), digit_char (day d mod 10)]"

text \<open>A mail provider that accepts every message, and one that refuses one address.\<close>

definition mail_ok :: "string \<Rightarrow> py_error + send_response" where
  "mail_ok a = Inr (RespDict [(''id'', PStr (''msg-'' @ a))])"

definition mail_bob_fails :: "string \<Rightarrow> py_error + send_response" where
  "mail_bob_fails a =
     (if a = ''bob@example.com'' then Inl (OtherException ''Invalid recipient'') else mail_ok a)"

definition all_sent_services :: services where
  "all_sent_services =
     demo_services demo_soup (Inr ''{...}'') (Inr (PDict two_entry_response)) mail_ok"

definition one_failed_services :: services where
  "one_failed_services =
     demo_services demo_soup (Inr ''{...}'') (Inr (PDict two_entry_response)) mail_bob_fails"

definition empty_page_services :: services where
  "empty_page_services =
     demo_services (Tag ''[document]'' [] None []) (Inr ''{...}'') (Inr (PDict two_entry_response)) mail_ok"

definition ada :: Recipient where
  "ada = \<lparr>Recipient.name = ''Ada'', email = ''ada@example.com''\<rparr>"

definition bob :: Recipient where
  "bob = \<lparr>Recipient.name = ''Bob'', email = ''bob@example.com''\<rparr>"

definition demo_digest :: DigestContent where
  "demo_digest = create_fallback_digest demo_page_products"

text \<open>The digest of the demo page with the intro a response with \<open>"intro": null\<close> gives.\<close>

definition null_intro_digest :: DigestContent where
  "null_intro_digest = (create_fallback_digest demo_page_products)\<lparr>intro := PNone\<rparr>"

section \<open>Properties of the summarizer\<close>

lemma summaries_loop_nth:
  "summaries_loop result i ps acc = Inr out \<Longrightarrow>
   length out = length acc + length ps \<and> take (length acc) out = acc \<and>
   (\<forall>j<length ps. product_summary_at result (i + j) (ps ! j) = Inr (out ! (length acc + j)))"
proof (induction ps arbitrary: i acc)
  case Nil
  then show ?case by simp
next
  case (Cons p ps)
  from Cons.prems obtain x where
    step: "product_summary_at result i p = Inr x" and
    rec: "summaries_loop result (Suc i) ps (acc @ [x]) = Inr out"
    by (auto split: sum.splits)
  from Cons.IH [OF rec] have
    len: "length out = length (acc @ [x]) + length ps" and
    tk: "take (length (acc @ [x])) out = acc @ [x]" and
    fr: "\<forall>j<length ps. product_summary_at result (Suc i + j) (ps ! j) = Inr (out ! (length (acc @ [x]) + j))"
    by blast+
  have tk': "take (length acc) out = acc"
  proof -
    have "take (length acc) (take (length (acc @ [x])) out) = take (length acc) (acc @ [x])"
      by (simp only: tk)
    then show ?thesis by (simp add: min_def)
  qed
  have hd: "out ! length acc = x"
  proof -
    have "out ! length acc = take (length (acc @ [x])) out ! length acc" by simp
    also have "\<dots> = (acc @ [x]) ! length acc" by (simp only: tk)
    finally show ?thesis by simp
  qed
  have "\<forall>j<length (p # ps). product_summary_at result (i + j) ((p # ps) ! j) = Inr (out ! (length acc + j))"
  proof (intro allI impI)
    fix j assume jl: "j < length (p # ps)"
    show "product_summary_at result (i + j) ((p # ps) ! j) = Inr (out ! (length acc + j))"
    proof (cases j)
      case 0
      then show ?thesis using hd step by simp
    next
      case (Suc k)
      with jl have "k < length ps" by simp
      with fr have "product_summary_at result (Suc i + k) (ps ! k) = Inr (out ! (length (acc @ [x]) + k))"
        by blast
      then show ?thesis using Suc by simp
    qed
  qed
  with len tk' show ?case by simp
qed

lemma summaries_loop_total:
  "(\<forall>j<length ps. \<exists>s. product_summary_at result (i + j) (ps ! j) = Inr s) \<Longrightarrow>
   \<exists>out. summaries_loop result i ps acc = Inr out"
proof (induction ps arbitrary: i acc)
  case Nil
  then show ?case by simp
next
  case (Cons p ps)
  from Cons.prems have "\<exists>s. product_summary_at result (i + 0) ((p # ps) ! 0) = Inr s"
    by (metis length_greater_0_conv list.distinct(1))
  then obtain x where step: "product_summary_at result i p = Inr x" by auto
  have "\<forall>j<length ps. \<exists>s. product_summary_at result (Suc i + j) (ps ! j) = Inr s"
  proof (intro allI impI)
    fix j assume "j < length ps"
    then have "Suc j < length (p # ps)" by simp
    with Cons.prems have "\<exists>s. product_summary_at result (i + Suc j) ((p # ps) ! Suc j) = Inr s"
      by blast
    then show "\<exists>s. product_summary_at result (Suc i + j) (ps ! j) = Inr s" by simp
  qed
  from Cons.IH [OF this] obtain out where "summaries_loop result (Suc i) ps (acc @ [x]) = Inr out"
    by blast
  with step show ?case by simp
qed

lemma product_summary_at_copies:
  "product_summary_at result i p = Inr s \<Longrightarrow> copies_product s p"
  by (auto simp: product_summary_at_def copies_product_def split: sum.splits)

lemma product_summary_at_beyond:
  assumes "py_get result ''products'' (PList []) = Inr (PList entries)" and "length entries \<le> i"
  shows "product_summary_at result i p =
           Inr \<lparr>ProductSummary.name = Product.name p, original_tagline = tagline p,
                summary = PStr (tagline p), why_it_matters = PStr [],
                url = Product.url p, image_url = Product.image_url p,
                topics = Product.topics p, comments_count = Product.comments_count p\<rparr>"
  using assms by (simp add: product_summary_at_def)

lemma product_summary_at_dict:
  assumes "py_get result ''products'' (PList []) = Inr (PList entries)"
    and "i < length entries" and "entries ! i = PDict d"
  shows "\<exists>s. product_summary_at result i p = Inr s"
  using assms by (simp add: product_summary_at_def split: option.splits)

text \<open>
  Claim C7. For the empty list of products the summarizer returns the digest with intro
  "No products found today." and no products, and sends no request to the model: the
  world it returns is the world it was given, whatever the services are.
\<close>

theorem summarize_empty_products:
  "GeminiSummarizer_summarize_products sv [] w =
     (Inr \<lparr>intro = PStr ''No products found today.'', products = []\<rparr>, w) \<and>
   llm_log (snd (GeminiSummarizer_summarize_products sv [] w)) = llm_log w"
  by (simp add: GeminiSummarizer_summarize_products_def)

text \<open>
  Claim C6. For a non-empty list of products, when the model answers and its answer is
  not valid JSON, the summarizer returns a digest whose intro is the fixed fallback
  string and in which the summary of every product is its tagline.
\<close>

theorem summarize_invalid_json_fallback:
  assumes "prods \<noteq> []"
    and "generate_content sv w (build_prompt prods) = Inr response_text"
    and "json_loads sv response_text = Inl (JSONDecodeError m)"
  shows "\<exists>digest. fst (GeminiSummarizer_summarize_products sv prods w) = Inr digest \<and>
           intro digest = PStr ''Here are today's top Product Hunt launches!'' \<and>
           length (products digest) = length prods \<and>
           (\<forall>i<length prods. summary (products digest ! i) = PStr (tagline (prods ! i)))"
  using assms
  by (simp add: GeminiSummarizer_summarize_products_def create_fallback_digest_def fallback_intro_def)

theorem summarize_invalid_json_fallback_witness:
  "three_products \<noteq> [] \<and>
   generate_content invalid_json_services empty_world (build_prompt three_products)
     = Inr ''I cannot answer in JSON'' \<and>
   json_loads invalid_json_services ''I cannot answer in JSON''
     = Inl (JSONDecodeError ''Expecting value: line 1 column 1 (char 0)'') \<and>
   (\<exists>digest. fst (GeminiSummarizer_summarize_products invalid_json_services three_products empty_world)
                = Inr digest \<and>
      intro digest = PStr ''Here are today's top Product Hunt launches!'' \<and>
      length (products digest) = length three_products \<and>
      (\<forall>i<length three_products. summary (products digest ! i) = PStr (tagline (three_products ! i))))"
proof -
  have h1: "three_products \<noteq> []" by (simp add: three_products_def)
  have h2: "generate_content invalid_json_services empty_world (build_prompt three_products)
              = Inr ''I cannot answer in JSON''"
    by (simp add: invalid_json_services_def demo_services_def)
  have h3: "json_loads invalid_json_services ''I cannot answer in JSON''
              = Inl (JSONDecodeError ''Expecting value: line 1 column 1 (char 0)'')"
    by (simp add: invalid_json_services_def demo_services_def)
  from summarize_invalid_json_fallback [OF h1 h2 h3] h1 h2 h3 show ?thesis by blast
qed

text \<open>
  Claim C1. For a non-empty list of products, when the model's answer parses to an
  object whose \<open>products\<close> (an empty list when the key is absent) is a list, of which
  the entries that face a product are objects, the summarizer returns a digest with
  exactly one summary per product, the i-th summary copying the i-th product, also when
  the list is shorter than the list of products; and at every index at or beyond the
  length of the list the summary is the product's tagline and \<open>why_it_matters\<close> is the
  empty string.
\<close>

theorem summarize_short_response:
  assumes "prods \<noteq> []"
    and "generate_content sv w (build_prompt prods) = Inr response_text"
    and "json_loads sv response_text = Inr (PDict kvs)"
    and "py_get (PDict kvs) ''products'' (PList []) = Inr (PList entries)"
    and "\<forall>j<length entries. j < length prods \<longrightarrow> (\<exists>d. entries ! j = PDict d)"
  shows "\<exists>digest. fst (GeminiSummarizer_summarize_products sv prods w) = Inr digest \<and>
           length (products digest) = length prods \<and>
           (\<forall>i<length prods. copies_product (products digest ! i) (prods ! i)) \<and>
           (\<forall>i<length prods. length entries \<le> i \<longrightarrow>
              summary (products digest ! i) = PStr (tagline (prods ! i)) \<and>
              why_it_matters (products digest ! i) = PStr [])"
proof -
  let ?result = "PDict kvs"
  have step: "\<forall>j<length prods. \<exists>s. product_summary_at ?result (0 + j) (prods ! j) = Inr s"
  proof (intro allI impI)
    fix j assume jl: "j < length prods"
    show "\<exists>s. product_summary_at ?result (0 + j) (prods ! j) = Inr s"
    proof (cases "j < length entries")
      case True
      with assms(5) jl obtain d where "entries ! j = PDict d" by blast
      from product_summary_at_dict [OF assms(4) True this] show ?thesis by simp
    next
      case False
      then have "length entries \<le> j" by simp
      from product_summary_at_beyond [OF assms(4) this] show ?thesis by simp
    qed
  qed
  from summaries_loop_total [OF step] obtain out where
    loop: "summaries_loop ?result 0 prods [] = Inr out" by blast
  from summaries_loop_nth [OF loop] have
    len: "length out = length prods" and
    nth: "\<forall>j<length prods. product_summary_at ?result j (prods ! j) = Inr (out ! j)"
    by simp_all
  obtain i where intro_ok: "py_get ?result ''intro'' (PStr fallback_intro) = Inr i"
    by (cases "map_of kvs ''intro''") simp_all
  have res: "fst (GeminiSummarizer_summarize_products sv prods w) = Inr \<lparr>intro = i, products = out\<rparr>"
    using assms(1,2,3) loop intro_ok
    by (simp add: GeminiSummarizer_summarize_products_def Let_def)
  have cp: "\<forall>j<length prods. copies_product (out ! j) (prods ! j)"
    using nth product_summary_at_copies by blast
  have dflt: "\<forall>j<length prods. length entries \<le> j \<longrightarrow>
                summary (out ! j) = PStr (tagline (prods ! j)) \<and> why_it_matters (out ! j) = PStr []"
  proof (intro allI impI)
    fix j assume jl: "j < length prods" and ge: "length entries \<le> j"
    from nth jl have "product_summary_at ?result j (prods ! j) = Inr (out ! j)" by blast
    with product_summary_at_beyond [OF assms(4) ge, of "prods ! j"]
    have "out ! j = \<lparr>ProductSummary.name = Product.name (prods ! j), original_tagline = tagline (prods ! j),
                summary = PStr (tagline (prods ! j)), why_it_matters = PStr [],
                url = Product.url (prods ! j), image_url = Product.image_url (prods ! j),
                topics = Product.topics (prods ! j), comments_count = Product.comments_count (prods ! j)\<rparr>"
      by simp
    then show "summary (out ! j) = PStr (tagline (prods ! j)) \<and> why_it_matters (out ! j) = PStr []"
      by simp
  qed
  from res len cp dflt show ?thesis by simp
qed

theorem summarize_short_response_witness:
  "three_products \<noteq> [] \<and>
   generate_content short_response_services empty_world (build_prompt three_products) = Inr ''{...}'' \<and>
   json_loads short_response_services ''{...}'' = Inr (PDict two_entry_response) \<and>
   py_get (PDict two_entry_response) ''products'' (PList []) = Inr (PList two_entries) \<and>
   (\<exists>d. two_entries ! 0 = PDict d) \<and> (\<exists>d. two_entries ! 1 = PDict d) \<and>
   length two_entries = 2 \<and> length three_products = 3 \<and>
   (\<exists>digest. fst (GeminiSummarizer_summarize_products short_response_services three_products empty_world)
                = Inr digest \<and>
      length (products digest) = 3 \<and>
      copies_product (products digest ! 0) (three_products ! 0) \<and>
      copies_product (products digest ! 1) (three_products ! 1) \<and>
      copies_product (products digest ! 2) (three_products ! 2) \<and>
      summary (products digest ! 2) = PStr ''Third tagline'' \<and>
      why_it_matters (products digest ! 2) = PStr [])"
proof -
  have h1: "three_products \<noteq> []" by (simp add: three_products_def)
  have h2: "generate_content short_response_services empty_world (build_prompt three_products) = Inr ''{...}''"
    by (simp add: short_response_services_def demo_services_def)
  have h3: "json_loads short_response_services ''{...}'' = Inr (PDict two_entry_response)"
    by (simp add: short_response_services_def demo_services_def)
  have h4: "py_get (PDict two_entry_response) ''products'' (PList []) = Inr (PList two_entries)"
    by (simp add: two_entry_response_def)
  have h5: "\<forall>j<length two_entries. j < length three_products \<longrightarrow> (\<exists>d. two_entries ! j = PDict d)"
    by (simp add: two_entries_def less_Suc_eq)
  have l2: "length two_entries = 2" by (simp add: two_entries_def)
  have l3: "length three_products = 3" by (simp add: three_products_def)
  have t3: "tagline (three_products ! 2) = ''Third tagline''"
    by (simp add: three_products_def demo_product_def)
  from summarize_short_response [OF h1 h2 h3 h4 h5] obtain digest where
    d: "fst (GeminiSummarizer_summarize_products short_response_services three_products empty_world) = Inr digest"
       "length (products digest) = length three_products"
       "\<forall>i<length three_products. copies_product (products digest ! i) (three_products ! i)"
       "\<forall>i<length three_products. length two_entries \<le> i \<longrightarrow>
          summary (products digest ! i) = PStr (tagline (three_products ! i)) \<and>
          why_it_matters (products digest ! i) = PStr []"
    by blast
  from d(3) l3 have c: "copies_product (products digest ! 0) (three_products ! 0)"
    "copies_product (products digest ! 1) (three_products ! 1)"
    "copies_product (products digest ! 2) (three_products ! 2)"
    by simp_all
  from d(4) l2 l3 t3 have s: "summary (products digest ! 2) = PStr ''Third tagline''"
    "why_it_matters (products digest ! 2) = PStr []"
    by simp_all
  have e0: "\<exists>d. two_entries ! 0 = PDict d" and e1: "\<exists>d. two_entries ! 1 = PDict d"
    by (simp_all add: two_entries_def)
  from h1 h2 h3 h4 e0 e1 l2 l3 d(1) d(2) c s show ?thesis by auto
qed

text \<open>
  Claim C10. Whatever the model answers, on the parsed path and on the fallback path
  alike, a digest the summarizer returns has one summary per product, and the i-th
  summary copies the i-th product: its name (never the name in the model's answer), its
  tagline as \<open>original_tagline\<close>, its url, image_url, topics and comments_count.
\<close>

theorem summary_copies_product_fields:
  assumes "fst (GeminiSummarizer_summarize_products sv prods w) = Inr digest"
  shows "length (products digest) = length prods \<and>
         (\<forall>i<length prods. copies_product (products digest ! i) (prods ! i))"
proof (cases "prods = []")
  case True
  with assms show ?thesis by (auto simp: GeminiSummarizer_summarize_products_def)
next
  case False
  show ?thesis
  proof (cases "generate_content sv w (build_prompt prods)")
    case (Inl e)
    with assms False show ?thesis by (simp add: GeminiSummarizer_summarize_products_def Let_def)
  next
    case (Inr response_text)
    show ?thesis
    proof (cases "json_loads sv response_text")
      case (Inl e)
      with assms False Inr have "digest = create_fallback_digest prods"
        by (cases e) (simp_all add: GeminiSummarizer_summarize_products_def Let_def)
      then show ?thesis by (simp add: create_fallback_digest_def copies_product_def)
    next
      case (Inr result)
      with assms False \<open>generate_content sv w (build_prompt prods) = Inr response_text\<close>
      obtain out where loop: "summaries_loop result 0 prods [] = Inr out" and "products digest = out"
        by (auto simp: GeminiSummarizer_summarize_products_def Let_def split: sum.splits)
      from summaries_loop_nth [OF loop] have
        "length out = length prods" and
        "\<forall>j<length prods. product_summary_at result j (prods ! j) = Inr (out ! j)"
        by simp_all
      with \<open>products digest = out\<close> product_summary_at_copies show ?thesis by blast
    qed
  qed
qed

theorem summary_copies_product_fields_witness:
  "(\<exists>digest. fst (GeminiSummarizer_summarize_products short_response_services three_products empty_world)
                = Inr digest \<and>
      length (products digest) = length three_products \<and>
      (\<forall>i<length three_products. copies_product (products digest ! i) (three_products ! i)) \<and>
      ProductSummary.name (products digest ! 0) = ''alpha'') \<and>
   (\<exists>digest. fst (GeminiSummarizer_summarize_products invalid_json_services three_products empty_world)
                = Inr digest \<and>
      length (products digest) = length three_products \<and>
      (\<forall>i<length three_products. copies_product (products digest ! i) (three_products ! i)))"
proof -
  obtain d1 where d1: "fst (GeminiSummarizer_summarize_products short_response_services three_products empty_world) = Inr d1"
    by (simp add: GeminiSummarizer_summarize_products_def short_response_services_def demo_services_def
          three_products_def two_entry_response_def two_entries_def product_summary_at_def Let_def)
  obtain d2 where d2: "fst (GeminiSummarizer_summarize_products invalid_json_services three_products empty_world) = Inr d2"
    by (simp add: GeminiSummarizer_summarize_products_def invalid_json_services_def demo_services_def
          three_products_def Let_def)
  have l3: "0 < length three_products" by (simp add: three_products_def)
  have n0: "Product.name (three_products ! 0) = ''alpha''"
    by (simp add: three_products_def demo_product_def)
  note c1 = summary_copies_product_fields [OF d1]
  note c2 = summary_copies_product_fields [OF d2]
  from c1 l3 have "copies_product (products d1 ! 0) (three_products ! 0)" by blast
  with n0 have "ProductSummary.name (products d1 ! 0) = ''alpha''" by (simp add: copies_product_def)
  with d1 d2 c1 c2 show ?thesis by blast
qed




section \<open>Properties of the scraper\<close>

lemma parse_loop_map_filter:
  "parse_loop sv base_url sections acc = acc @ List.map_filter (parse_product_section sv base_url) sections"
  by (induction sections arbitrary: acc) (simp_all split: option.splits)

lemma length_map_filter_le: "length (List.map_filter f xs) \<le> length xs"
  by (simp add: List.map_filter_def)

lemma length_map_filter_all:
  "\<forall>x\<in>set xs. f x \<noteq> None \<Longrightarrow> length (List.map_filter f xs) = length xs"
  by (induction xs) (auto split: option.splits)

text \<open>
  Claim C5, as stated: for every limit at least 0 and every page with k listing sections
  the parse step returns exactly min(limit, k) products. The demo page has three listing
  sections, one of them without a name element: with limit 5 the parse step returns two
  products, not three.
\<close>

theorem parse_products_count_counterexample:
  "length (product_sections (BeautifulSoup all_sent_services ''<html>'')) = 3 \<and>
   length (parse_products all_sent_services ''https://www.producthunt.com'' ''<html>'' 5) = 2 \<and>
   length (parse_products all_sent_services ''https://www.producthunt.com'' ''<html>'' 5)
     \<noteq> min (nat 5) (length (product_sections (BeautifulSoup all_sent_services ''<html>'')))"
proof -
  have a: "length (product_sections (BeautifulSoup all_sent_services ''<html>'')) = 3"
    by code_simp
  have b: "length (parse_products all_sent_services ''https://www.producthunt.com'' ''<html>'' 5) = 2"
    by code_simp
  from a b show ?thesis by simp
qed

text \<open>
  Claim C5, amended. For every limit at least 0 and every page with k listing sections,
  the parse step returns the products of those among the first min(limit, k) sections, in
  document order, that parse to a product: at most min(limit, k) products, and exactly
  min(limit, k) when each of these sections parses to a product.
\<close>

theorem parse_products_at_most_limit:
  assumes "0 \<le> limit"
  shows "parse_products sv base_url html_text limit =
           List.map_filter (parse_product_section sv base_url)
             (take (nat limit) (product_sections (BeautifulSoup sv html_text))) \<and>
         length (parse_products sv base_url html_text limit)
           \<le> min (nat limit) (length (product_sections (BeautifulSoup sv html_text))) \<and>
         ((\<forall>section \<in> set (take (nat limit) (product_sections (BeautifulSoup sv html_text))).
              parse_product_section sv base_url section \<noteq> None) \<longrightarrow>
          length (parse_products sv base_url html_text limit)
            = min (nat limit) (length (product_sections (BeautifulSoup sv html_text))))"
proof -
  let ?first = "take (nat limit) (product_sections (BeautifulSoup sv html_text))"
  have eq: "parse_products sv base_url html_text limit =
              List.map_filter (parse_product_section sv base_url) ?first"
    using assms by (simp add: parse_products_def slice_to_def parse_loop_map_filter Let_def)
  have len: "length ?first = min (nat limit) (length (product_sections (BeautifulSoup sv html_text)))"
    by (simp add: min.commute)
  have le: "length (List.map_filter (parse_product_section sv base_url) ?first) \<le> length ?first"
    by (rule length_map_filter_le)
  have all: "(\<forall>section \<in> set ?first. parse_product_section sv base_url section \<noteq> None) \<longrightarrow>
             length (List.map_filter (parse_product_section sv base_url) ?first) = length ?first"
    using length_map_filter_all by blast
  from eq len le all show ?thesis by simp
qed

theorem parse_products_at_most_limit_witness:
  "(0::int) \<le> 1 \<and> (0::int) \<le> 2 \<and>
   take (nat 1) (product_sections (BeautifulSoup all_sent_services ''<html>'')) = [full_section] \<and>
   parse_product_section all_sent_services ''https://www.producthunt.com'' full_section \<noteq> None \<and>
   length (parse_products all_sent_services ''https://www.producthunt.com'' ''<html>'' 1)
     = min (nat 1) (length (product_sections (BeautifulSoup all_sent_services ''<html>''))) \<and>
   length (parse_products all_sent_services ''https://www.producthunt.com'' ''<html>'' 2)
     \<le> min (nat 2) (length (product_sections (BeautifulSoup all_sent_services ''<html>''))) \<and>
   length (parse_products all_sent_services ''https://www.producthunt.com'' ''<html>'' 2) = 1"
proof -
  have h1: "(0::int) \<le> 1" and h2: "(0::int) \<le> 2" by simp_all
  have f: "take (nat 1) (product_sections (BeautifulSoup all_sent_services ''<html>'')) = [full_section]"
    by code_simp
  have p: "parse_product_section all_sent_services ''https://www.producthunt.com'' full_section \<noteq> None"
    by code_simp
  have l: "length (parse_products all_sent_services ''https://www.producthunt.com'' ''<html>'' 2) = 1"
    by code_simp
  note t1 = parse_products_at_most_limit [OF h1, of all_sent_services "''https://www.producthunt.com''" "''<html>''"]
  note t2 = parse_products_at_most_limit [OF h2, of all_sent_services "''https://www.producthunt.com''" "''<html>''"]
  have prem: "\<forall>section \<in> set (take (nat 1) (product_sections (BeautifulSoup all_sent_services ''<html>''))).
                parse_product_section all_sent_services ''https://www.producthunt.com'' section \<noteq> None"
    by (subst f) (simp add: p)
  from t1 prem have a: "length (parse_products all_sent_services ''https://www.producthunt.com'' ''<html>'' 1)
     = min (nat 1) (length (product_sections (BeautifulSoup all_sent_services ''<html>'')))"
    by blast
  from t2 have b: "length (parse_products all_sent_services ''https://www.producthunt.com'' ''<html>'' 2)
     \<le> min (nat 2) (length (product_sections (BeautifulSoup all_sent_services ''<html>'')))"
    by blast
  from h1 h2 f p a b l show ?thesis by blast
qed

text \<open>
  Claim C9. A listing section that lacks a name element yields no product, and no
  exception either (the result is a value, \<open>None\<close>); the loop over the sections goes on
  and gives what it gives on the other sections.
\<close>

theorem nameless_section_skipped:
  assumes "lacks_name_element section"
  shows "parse_product_section sv base_url section = None \<and>
         parse_loop sv base_url (before @ section # after) acc =
           parse_loop sv base_url (before @ after) acc"
proof -
  have none: "parse_product_section sv base_url section = None"
    using assms
    by (auto simp: lacks_name_element_def parse_product_section_def parse_product_section_body_def
             split: option.splits)
  then show ?thesis
    by (simp add: parse_loop_map_filter List.map_filter_def)
qed

theorem nameless_section_skipped_witness:
  "lacks_name_element nameless_section \<and> lacks_name_element anchorless_section \<and>
   parse_product_section all_sent_services ''https://www.producthunt.com'' nameless_section = None \<and>
   parse_product_section all_sent_services ''https://www.producthunt.com'' anchorless_section = None \<and>
   parse_loop all_sent_services ''https://www.producthunt.com''
       ([full_section] @ nameless_section # [anchorless_section, plain_section]) []
     = parse_loop all_sent_services ''https://www.producthunt.com''
         ([full_section] @ [anchorless_section, plain_section]) [] \<and>
   parse_loop all_sent_services ''https://www.producthunt.com''
       ([full_section, nameless_section] @ anchorless_section # [plain_section]) []
     = parse_loop all_sent_services ''https://www.producthunt.com''
         ([full_section, nameless_section] @ [plain_section]) [] \<and>
   parse_loop all_sent_services ''https://www.producthunt.com''
       [full_section, nameless_section, anchorless_section, plain_section] [] = demo_page_products"
proof -
  have h1: "lacks_name_element nameless_section" by code_simp
  have h2: "lacks_name_element anchorless_section" by code_simp
  have r: "parse_loop all_sent_services ''https://www.producthunt.com''
       [full_section, nameless_section, anchorless_section, plain_section] [] = demo_page_products"
    by code_simp
  note t1 = nameless_section_skipped [OF h1, of all_sent_services "''https://www.producthunt.com''"
              "[full_section]" "[anchorless_section, plain_section]" "[]"]
  note t2 = nameless_section_skipped [OF h2, of all_sent_services "''https://www.producthunt.com''"
              "[full_section, nameless_section]" "[plain_section]" "[]"]
  from h1 h2 r t1 t2 show ?thesis by blast
qed

section \<open>Properties of the mailer\<close>

lemma zero_char: "char_of (48::nat) = CHR ''0''"
  by code_simp

lemma digit_char_0: "digit_char 0 = CHR ''0''"
  by (simp add: digit_char_def zero_char)

lemma str_nat_1: "n < 10 \<Longrightarrow> str_nat n = [digit_char n]"
  by (simp add: str_nat.simps digit_char_def)

lemma str_nat_2: "10 \<le> n \<Longrightarrow> n < 100 \<Longrightarrow> str_nat n = [digit_char (n div 10), digit_char (n mod 10)]"
  by (subst str_nat.simps) (simp add: str_nat_1 digit_char_def)

lemma str_nat_3: "100 \<le> n \<Longrightarrow> n < 1000 \<Longrightarrow>
    str_nat n = [digit_char (n div 100), digit_char (n div 10 mod 10), digit_char (n mod 10)]"
  by (subst str_nat.simps) (simp add: str_nat_2 digit_char_def div_mult2_eq [symmetric])

lemma str_nat_4: "1000 \<le> n \<Longrightarrow> n < 10000 \<Longrightarrow>
    str_nat n = [digit_char (n div 1000), digit_char (n div 100 mod 10), digit_char (n div 10 mod 10),
                 digit_char (n mod 10)]"
  by (subst str_nat.simps) (simp add: str_nat_3 digit_char_def div_mult2_eq [symmetric])

lemma zfill_2: "n < 100 \<Longrightarrow> zfill 2 (str_nat n) = [digit_char (n div 10), digit_char (n mod 10)]"
proof (cases "n < 10")
  case True
  then show ?thesis by (simp add: zfill_def str_nat_1 digit_char_0)
next
  case False
  assume "n < 100"
  with False show ?thesis by (simp add: zfill_def str_nat_2)
qed

lemma zfill_4: "1000 \<le> n \<Longrightarrow> n < 10000 \<Longrightarrow> zfill 4 (str_nat n) =
    [digit_char (n div 1000), digit_char (n div 100 mod 10), digit_char (n div 10 mod 10),
     digit_char (n mod 10)]"
  by (simp add: zfill_def str_nat_4)

lemma send_loop_spec:
  "send_loop sv f s h t rs acc w =
     (acc @ map2 (\<lambda>recipient reply. case reply of
                     Inr response \<Rightarrow> sent_result recipient response
                   | Inl e \<Rightarrow> failed_result recipient e)
              rs (delivery_replies sv (map (send_params f s h t) rs) w),
      w\<lparr>mail_log := mail_log w @ map (send_params f s h t) rs\<rparr>)"
proof (induction rs arbitrary: acc w)
  case Nil
  then show ?case by simp
next
  case (Cons r rs)
  show ?case
    by (cases "Emails_send sv w (send_params f s h t r)") (simp_all add: Cons.IH Let_def)
qed

lemma length_delivery_replies: "length (delivery_replies sv ps w) = length ps"
  by (induction ps arbitrary: w) simp_all

lemma generate_text_email_str:
  "intro digest = PStr intro_text \<Longrightarrow> \<exists>t. generate_text_email sv digest w = Inr t"
  by (simp add: generate_text_email_def Let_def)

lemma send_digest_spec:
  assumes "generate_text_email sv digest w = Inr t"
  shows "EmailSender_send_digest sv digest recipients from_email subject_prefix w =
     (Inr (map2 (\<lambda>recipient reply. case reply of
                    Inr response \<Rightarrow> sent_result recipient response
                  | Inl e \<Rightarrow> failed_result recipient e)
             recipients
             (delivery_replies sv (map (digest_params sv digest from_email subject_prefix w) recipients) w)),
      w\<lparr>mail_log := mail_log w @ map (digest_params sv digest from_email subject_prefix w) recipients\<rparr>)"
proof -
  have "digest_params sv digest from_email subject_prefix w
          = send_params from_email (subject_line sv subject_prefix w) (generate_html_email sv digest) t"
    by (rule ext) (simp add: digest_params_def assms)
  then show ?thesis
    by (simp add: EmailSender_send_digest_def Let_def send_loop_spec assms)
qed

lemma send_digest_raises:
  "generate_text_email sv digest w = Inl e \<Longrightarrow>
   EmailSender_send_digest sv digest recipients from_email subject_prefix w = (Inl e, w)"
  by (simp add: EmailSender_send_digest_def Let_def)

text \<open>
  Claim C4, as stated: for every digest and every list of recipients \<open>send_digest\<close>
  returns one result per recipient and lets no exception out. It does not for a digest
  whose intro is not a string, such as the one the summarizer builds from a response with
  \<open>"intro": null\<close>: the text body cannot be rendered, the \<open>TypeError\<close> leaves
  \<open>send_digest\<close> and no message is sent.
\<close>

theorem send_digest_counterexample:
  "intro null_intro_digest = PNone \<and>
   fst (EmailSender_send_digest one_failed_services null_intro_digest [ada, bob]
          ''Digest <d@example.com>'' ''Daily'' empty_world)
     = Inl (TypeError ''sequence item 5: expected str instance'') \<and>
   mail_log (snd (EmailSender_send_digest one_failed_services null_intro_digest [ada, bob]
          ''Digest <d@example.com>'' ''Daily'' empty_world)) = []"
proof -
  have i: "intro null_intro_digest = PNone" by (simp add: null_intro_digest_def)
  then have g: "generate_text_email one_failed_services null_intro_digest empty_world
                  = Inl (TypeError ''sequence item 5: expected str instance'')"
    by (simp add: generate_text_email_def Let_def)
  from i send_digest_raises [OF g] show ?thesis by (simp add: empty_world_def)
qed

text \<open>
  Claim C4, amended. For every digest whose intro is a string and every list of
  recipients, \<open>send_digest\<close> returns a list of results (no exception): one result per
  recipient, in the order of the recipients, each carrying its recipient's address. The
  result of a recipient is \<open>sent\<close> with the id of the provider's response when the
  delivery call returns, and \<open>failed\<close> with the message of the exception when it
  raises; whatever happened to the recipients before, a message goes out for every
  recipient.
\<close>

theorem send_digest_one_result_per_recipient:
  assumes "intro digest = PStr intro_text"
  shows "\<exists>results w'.
     EmailSender_send_digest sv digest recipients from_email subject_prefix w = (Inr results, w') \<and>
     results =
       map2 (\<lambda>recipient reply. case reply of
                Inr response \<Rightarrow>
                  [(''recipient'', PStr (email recipient)), (''status'', PStr ''sent''),
                   (''id'', response_id response)]
              | Inl e \<Rightarrow>
                  [(''recipient'', PStr (email recipient)), (''status'', PStr ''failed''),
                   (''error'', PStr (str_of_error e))])
         recipients
         (delivery_replies sv (map (digest_params sv digest from_email subject_prefix w) recipients) w) \<and>
     length results = length recipients \<and>
     map (\<lambda>r. map_of r ''recipient'') results
       = map (\<lambda>recipient. Some (PStr (email recipient))) recipients \<and>
     mail_log w' = mail_log w @ map (digest_params sv digest from_email subject_prefix w) recipients"
proof -
  let ?replies = "delivery_replies sv (map (digest_params sv digest from_email subject_prefix w) recipients) w"
  let ?results = "map2 (\<lambda>recipient reply. case reply of
                           Inr response \<Rightarrow> sent_result recipient response
                         | Inl e \<Rightarrow> failed_result recipient e) recipients ?replies"
  let ?w' = "w\<lparr>mail_log := mail_log w @ map (digest_params sv digest from_email subject_prefix w) recipients\<rparr>"
  from generate_text_email_str [OF assms] obtain t where t: "generate_text_email sv digest w = Inr t"
    by blast
  have run: "EmailSender_send_digest sv digest recipients from_email subject_prefix w = (Inr ?results, ?w')"
    by (rule send_digest_spec [OF t])
  have len: "length ?replies = length recipients"
    by (simp add: length_delivery_replies)
  have rcp: "map (\<lambda>r. map_of r ''recipient'')
               (map2 (\<lambda>recipient reply. case reply of
                         Inr response \<Rightarrow> sent_result recipient response
                       | Inl e \<Rightarrow> failed_result recipient e) rs reps)
             = map (\<lambda>recipient. Some (PStr (email recipient))) rs"
    if "length reps = length rs" for rs :: "Recipient list" and reps :: "(py_error + send_response) list"
    using that
  proof (induction rs arbitrary: reps)
    case Nil
    then show ?case by simp
  next
    case (Cons r rs)
    then obtain x xs where "reps = x # xs" and "length xs = length rs"
      by (cases reps) simp_all
    with Cons.IH [of xs] show ?case
      by (cases x) (simp_all add: sent_result_def failed_result_def)
  qed
  have "EmailSender_send_digest sv digest recipients from_email subject_prefix w = (Inr ?results, ?w') \<and>
        ?results = ?results \<and>
        length ?results = length recipients \<and>
        map (\<lambda>r. map_of r ''recipient'') ?results
          = map (\<lambda>recipient. Some (PStr (email recipient))) recipients \<and>
        mail_log ?w' = mail_log w @ map (digest_params sv digest from_email subject_prefix w) recipients"
    using run len rcp [OF len] by simp
  then have "\<exists>results w'.
     EmailSender_send_digest sv digest recipients from_email subject_prefix w = (Inr results, w') \<and>
     results = ?results \<and>
     length results = length recipients \<and>
     map (\<lambda>r. map_of r ''recipient'') results
       = map (\<lambda>recipient. Some (PStr (email recipient))) recipients \<and>
     mail_log w' = mail_log w @ map (digest_params sv digest from_email subject_prefix w) recipients"
    by blast
  then show ?thesis
    unfolding sent_result_def failed_result_def .
qed

theorem send_digest_one_result_per_recipient_witness:
  "intro demo_digest = PStr ''Here are today's top Product Hunt launches!'' \<and>
   fst (EmailSender_send_digest one_failed_services demo_digest [bob, ada] ''Digest <d@example.com>''
          ''Daily'' empty_world)
     = Inr [[(''recipient'', PStr ''bob@example.com''), (''status'', PStr ''failed''),
             (''error'', PStr ''Invalid recipient'')],
            [(''recipient'', PStr ''ada@example.com''), (''status'', PStr ''sent''),
             (''id'', PStr ''msg-ada@example.com'')]] \<and>
   map to_addrs (mail_log (snd (EmailSender_send_digest one_failed_services demo_digest [bob, ada]
                  ''Digest <d@example.com>'' ''Daily'' empty_world)))
     = [[''bob@example.com''], [''ada@example.com'']]"
proof -
  have h: "intro demo_digest = PStr ''Here are today's top Product Hunt launches!''"
    by (simp add: demo_digest_def create_fallback_digest_def fallback_intro_def)
  from send_digest_one_result_per_recipient
         [OF h, of one_failed_services "[bob, ada]" "''Digest <d@example.com>''" "''Daily''" empty_world]
  obtain results w' where
    run: "EmailSender_send_digest one_failed_services demo_digest [bob, ada] ''Digest <d@example.com>''
            ''Daily'' empty_world = (Inr results, w')" and
    res: "results =
       map2 (\<lambda>recipient reply. case reply of
                Inr response \<Rightarrow>
                  [(''recipient'', PStr (email recipient)), (''status'', PStr ''sent''),
                   (''id'', response_id response)]
              | Inl e \<Rightarrow>
                  [(''recipient'', PStr (email recipient)), (''status'', PStr ''failed''),
                   (''error'', PStr (str_of_error e))])
         [bob, ada]
         (delivery_replies one_failed_services
            (map (digest_params one_failed_services demo_digest ''Digest <d@example.com>'' ''Daily'' empty_world)
               [bob, ada]) empty_world)" and
    log: "mail_log w' = mail_log empty_world @
            map (digest_params one_failed_services demo_digest ''Digest <d@example.com>'' ''Daily'' empty_world)
              [bob, ada]"
    by blast
  have r: "delivery_replies one_failed_services
             (map (digest_params one_failed_services demo_digest ''Digest <d@example.com>'' ''Daily'' empty_world)
                [bob, ada]) empty_world
           = [Inl (OtherException ''Invalid recipient''), Inr (RespDict [(''id'', PStr ''msg-ada@example.com'')])]"
    by (simp add: one_failed_services_def demo_services_def digest_params_def send_params_def
          bob_def ada_def mail_bob_fails_def mail_ok_def)
  have m: "map to_addrs (map (digest_params one_failed_services demo_digest ''Digest <d@example.com>'' ''Daily'' empty_world)
                [bob, ada]) = [[''bob@example.com''], [''ada@example.com'']]"
    by (simp add: digest_params_def send_params_def bob_def ada_def)
  have e: "mail_log empty_world = []" by (simp add: empty_world_def)
  from res have a: "results
     = [[(''recipient'', PStr ''bob@example.com''), (''status'', PStr ''failed''),
         (''error'', PStr ''Invalid recipient'')],
        [(''recipient'', PStr ''ada@example.com''), (''status'', PStr ''sent''),
         (''id'', PStr ''msg-ada@example.com'')]]"
    by (simp only: r) (simp add: bob_def ada_def)
  from log m e have c: "map to_addrs (mail_log w') = [[''bob@example.com''], [''ada@example.com'']]"
    by simp
  from h run a c show ?thesis by simp
qed

lemma strftime_iso:
  assumes "1000 \<le> year d" "year d \<le> 9999" "month d \<le> 12" "day d \<le> 31"
  shows "strftime_Ymd d = iso_date d"
  using assms by (simp add: strftime_Ymd_def iso_date_def zfill_4 zfill_2)

text \<open>
  Claim C8. For every subject prefix and every send date (one of a four-digit year, as
  the clock gives), the subject is the prefix, then " - ", then the date written
  YYYY-MM-DD, and every message of the run carries this subject. For the prefix of the
  spec, the rocket and " Product Hunt Daily", on 2024-05-01 the subject is that prefix
  followed by " - 2024-05-01".
\<close>

theorem subject_line_format:
  assumes "1000 \<le> year (datetime_now sv w)" and "year (datetime_now sv w) \<le> 9999"
    and "1 \<le> month (datetime_now sv w)" and "month (datetime_now sv w) \<le> 12"
    and "1 \<le> day (datetime_now sv w)" and "day (datetime_now sv w) \<le> 31"
  shows "subject_line sv subject_prefix w = subject_prefix @ '' - '' @ iso_date (datetime_now sv w) \<and>
         map subject (drop (length (mail_log w))
            (mail_log (snd (EmailSender_send_digest sv digest recipients from_email subject_prefix w))))
           = (case fst (EmailSender_send_digest sv digest recipients from_email subject_prefix w) of
                Inr results \<Rightarrow>
                  map (\<lambda>recipient. subject_prefix @ '' - '' @ iso_date (datetime_now sv w)) recipients
              | Inl e \<Rightarrow> [])"
proof -
  have s: "subject_line sv subject_prefix w = subject_prefix @ '' - '' @ iso_date (datetime_now sv w)"
    using assms by (simp add: subject_line_def Let_def strftime_iso)
  have m: "map subject (map (digest_params sv digest from_email subject_prefix w) recipients)
          = map (\<lambda>recipient. subject_line sv subject_prefix w) recipients"
    by (simp add: digest_params_def send_params_def)
  show ?thesis
  proof (cases "generate_text_email sv digest w")
    case (Inl e)
    from send_digest_raises [OF Inl] s show ?thesis by simp
  next
    case (Inr t)
    from send_digest_spec [OF Inr] s m show ?thesis by simp
  qed
qed

theorem subject_line_format_witness:
  "datetime_now all_sent_services empty_world = \<lparr>year = 2024, month = 5, day = 1\<rparr> \<and>
   subject_line all_sent_services (rocket @ '' Product Hunt Daily'') empty_world
     = rocket @ '' Product Hunt Daily - 2024-05-01'' \<and>
   map subject (mail_log (snd (EmailSender_send_digest all_sent_services demo_digest [ada, bob]
        ''Digest <d@example.com>'' (rocket @ '' Product Hunt Daily'') empty_world)))
     = [rocket @ '' Product Hunt Daily - 2024-05-01'', rocket @ '' Product Hunt Daily - 2024-05-01'']"
proof -
  have d: "datetime_now all_sent_services empty_world = \<lparr>year = 2024, month = 5, day = 1\<rparr>"
    by (simp add: all_sent_services_def demo_services_def)
  have i: "iso_date \<lparr>year = 2024, month = 5, day = 1\<rparr> = ''2024-05-01''"
    by code_simp
  have e: "length (mail_log empty_world) = 0" by (simp add: empty_world_def)
  have "intro demo_digest = PStr fallback_intro"
    by (simp add: demo_digest_def create_fallback_digest_def)
  from generate_text_email_str [OF this] obtain t where
    "generate_text_email all_sent_services demo_digest empty_world = Inr t" by blast
  from send_digest_spec [OF this] have f:
    "\<exists>results. fst (EmailSender_send_digest all_sent_services demo_digest [ada, bob]
        ''Digest <d@example.com>'' (rocket @ '' Product Hunt Daily'') empty_world) = Inr results"
    by simp
  have p: "1000 \<le> year (datetime_now all_sent_services empty_world)"
          "year (datetime_now all_sent_services empty_world) \<le> 9999"
          "1 \<le> month (datetime_now all_sent_services empty_world)"
          "month (datetime_now all_sent_services empty_world) \<le> 12"
          "1 \<le> day (datetime_now all_sent_services empty_world)"
          "day (datetime_now all_sent_services empty_world) \<le> 31"
    by (simp_all add: d)
  note t = subject_line_format [OF p, of "rocket @ '' Product Hunt Daily''"
             demo_digest "[ada, bob]" "''Digest <d@example.com>''"]
  from f obtain results where r: "fst (EmailSender_send_digest all_sent_services demo_digest [ada, bob]
        ''Digest <d@example.com>'' (rocket @ '' Product Hunt Daily'') empty_world) = Inr results"
    by blast
  have t': "subject_line all_sent_services (rocket @ '' Product Hunt Daily'') empty_world
              = (rocket @ '' Product Hunt Daily'') @ '' - '' @ ''2024-05-01'' \<and>
            map subject (drop (length (mail_log empty_world))
              (mail_log (snd (EmailSender_send_digest all_sent_services demo_digest [ada, bob]
                 ''Digest <d@example.com>'' (rocket @ '' Product Hunt Daily'') empty_world))))
              = map (\<lambda>recipient. (rocket @ '' Product Hunt Daily'') @ '' - '' @ ''2024-05-01'') [ada, bob]"
    using t by (simp only: d i r sum.case)
  from t' d e show ?thesis by simp
qed

section \<open>Properties of the driver\<close>

lemma failed_count_zero:
  "(int (length rs) - int (length (filter P rs)) = 0) = list_all P rs"
proof -
  have "length (filter P rs) + length (filter (\<lambda>x. \<not> P x) rs) = length rs"
    by (rule sum_length_filter_compl)
  then have "(int (length rs) - int (length (filter P rs)) = 0) = (filter (\<lambda>x. \<not> P x) rs = [])"
    by auto
  also have "\<dots> = list_all P rs"
    by (simp add: filter_empty_conv list_all_iff)
  finally show ?thesis .
qed

lemma all_sent_replies:
  "length reps = length rs \<Longrightarrow>
   list_all is_sent
     (map2 (\<lambda>recipient reply. case reply of
               Inr response \<Rightarrow> sent_result recipient response
             | Inl e \<Rightarrow> failed_result recipient e) rs reps)
   = list_all succeeded reps"
proof (induction rs arbitrary: reps)
  case Nil
  then show ?case by simp
next
  case (Cons r rs)
  then obtain x xs where "reps = x # xs" and "length xs = length rs"
    by (cases reps) simp_all
  with Cons.IH [of xs] show ?case
    by (cases x) (simp_all add: is_sent_def sent_result_def failed_result_def)
qed

lemma fetch_products_logs:
  "fetch_products sv base_url limit w = (r, w1) \<Longrightarrow> llm_log w1 = llm_log w \<and> mail_log w1 = mail_log w"
  by (auto simp: fetch_products_def get_top_products_def fetch_homepage_def split: sum.splits)

text \<open>The exit status once the configuration is loaded and names a recipient.\<close>

lemma main_after_send:
  assumes "load_config sv ''config.yaml'' = Inr cfg" and "config_recipients cfg \<noteq> []"
    and "fetch_products sv (config_base_url cfg) (config_product_count cfg) w = (Inr prods, w1)"
    and "prods \<noteq> []"
    and "summarize_products sv prods None (config_model_name cfg) w1 = (Inr digest, w2)"
    and "send_digest sv digest (config_recipients cfg) (config_from_email cfg)
           (config_subject_prefix cfg) None w2 = (Inr results, w3)"
  shows "fst (main sv w) =
           Inr (if list_all succeeded
                     (delivery_replies sv
                        (map (digest_params sv digest (config_from_email cfg) (config_subject_prefix cfg) w2)
                           (config_recipients cfg)) w2)
                then 0 else 1)"
proof -
  let ?replies = "delivery_replies sv
                    (map (digest_params sv digest (config_from_email cfg) (config_subject_prefix cfg) w2)
                       (config_recipients cfg)) w2"
  from assms(6) have res: "results =
      map2 (\<lambda>recipient reply. case reply of
               Inr response \<Rightarrow> sent_result recipient response
             | Inl e \<Rightarrow> failed_result recipient e) (config_recipients cfg) ?replies"
  proof (cases "generate_text_email sv digest w2")
    case (Inl e)
    with assms(6) send_digest_raises [OF Inl] show ?thesis
      by (auto simp: send_digest_def split: sum.splits)
  next
    case (Inr t)
    with assms(6) send_digest_spec [OF Inr] show ?thesis
      by (auto simp: send_digest_def split: sum.splits)
  qed
  have "list_all is_sent results = list_all succeeded ?replies"
    unfolding res by (rule all_sent_replies) (simp add: length_delivery_replies)
  moreover have "(length results = length (filter is_sent results)) = list_all is_sent results"
    using failed_count_zero [of results is_sent] by simp
  ultimately have "(length results = length (filter is_sent results)) = list_all succeeded ?replies"
    by simp
  with assms show ?thesis
    by (simp add: main_def Let_def)
qed

text \<open>
  Claim C2. The exit status of the driver is 0 or 1. It is 0 exactly when the
  configuration loads and names a recipient, the fetch returns, and either the fetch
  returned no product, or the summarizer and the mailer returned and every delivery call
  succeeded; so it is 1 when a delivery call failed or an earlier stage aborted. When
  the fetch returns no product the driver returns 0 with the world as the fetch left it:
  neither the model nor the mail provider has received a request.
\<close>

theorem driver_exit_status:
  "(exit_status (fst (main sv w)) = 0 \<or> exit_status (fst (main sv w)) = 1) \<and>
   (exit_status (fst (main sv w)) = 0 \<longleftrightarrow>
      (\<exists>cfg prods w1.
         load_config sv ''config.yaml'' = Inr cfg \<and> config_recipients cfg \<noteq> [] \<and>
         fetch_products sv (config_base_url cfg) (config_product_count cfg) w = (Inr prods, w1) \<and>
         (prods = [] \<or>
          (\<exists>digest w2 results w3.
             summarize_products sv prods None (config_model_name cfg) w1 = (Inr digest, w2) \<and>
             send_digest sv digest (config_recipients cfg) (config_from_email cfg)
               (config_subject_prefix cfg) None w2 = (Inr results, w3) \<and>
             list_all succeeded
               (delivery_replies sv
                  (map (digest_params sv digest (config_from_email cfg) (config_subject_prefix cfg) w2)
                     (config_recipients cfg)) w2))))) \<and>
   (\<forall>cfg w1.
      load_config sv ''config.yaml'' = Inr cfg \<and> config_recipients cfg \<noteq> [] \<and>
      fetch_products sv (config_base_url cfg) (config_product_count cfg) w = (Inr [], w1)
      \<longrightarrow> main sv w = (Inr 0, w1) \<and> llm_log w1 = llm_log w \<and> mail_log w1 = mail_log w)"
proof -
  let ?ok = "\<lambda>cfg prods w1.
         load_config sv ''config.yaml'' = Inr cfg \<and> config_recipients cfg \<noteq> [] \<and>
         fetch_products sv (config_base_url cfg) (config_product_count cfg) w = (Inr prods, w1) \<and>
         (prods = [] \<or>
          (\<exists>digest w2 results w3.
             summarize_products sv prods None (config_model_name cfg) w1 = (Inr digest, w2) \<and>
             send_digest sv digest (config_recipients cfg) (config_from_email cfg)
               (config_subject_prefix cfg) None w2 = (Inr results, w3) \<and>
             list_all succeeded
               (delivery_replies sv
                  (map (digest_params sv digest (config_from_email cfg) (config_subject_prefix cfg) w2)
                     (config_recipients cfg)) w2)))"
  have empty: "main sv w = (Inr 0, w1) \<and> llm_log w1 = llm_log w \<and> mail_log w1 = mail_log w"
    if "load_config sv ''config.yaml'' = Inr cfg" and "config_recipients cfg \<noteq> []"
      and "fetch_products sv (config_base_url cfg) (config_product_count cfg) w = (Inr [], w1)"
    for cfg w1
    using that fetch_products_logs [OF that(3)] by (simp add: main_def Let_def)
  have status: "(exit_status (fst (main sv w)) = 0 \<or> exit_status (fst (main sv w)) = 1) \<and>
                (exit_status (fst (main sv w)) = 0 \<longleftrightarrow> (\<exists>cfg prods w1. ?ok cfg prods w1))"
  proof (cases "load_config sv ''config.yaml''")
    case (Inl e)
    then show ?thesis
      by (cases e) (simp_all add: main_def exit_status_def)
  next
    case (Inr cfg)
    note cfg = this
    show ?thesis
    proof (cases "config_recipients cfg = []")
      case True
      with cfg show ?thesis by (simp add: main_def exit_status_def Let_def)
    next
      case False
      note rcp = this
      obtain r1 w1 where f: "fetch_products sv (config_base_url cfg) (config_product_count cfg) w = (r1, w1)"
        by (cases "fetch_products sv (config_base_url cfg) (config_product_count cfg) w")
      show ?thesis
      proof (cases r1)
        case (Inl e)
        with cfg rcp f show ?thesis by (simp add: main_def exit_status_def Let_def)
      next
        case (Inr prods)
        note prods = this
        show ?thesis
        proof (cases "prods = []")
          case True
          with cfg rcp f prods show ?thesis by (simp add: main_def exit_status_def Let_def)
        next
          case False
          note ne = this
          obtain r2 w2 where s: "summarize_products sv prods None (config_model_name cfg) w1 = (r2, w2)"
            by (cases "summarize_products sv prods None (config_model_name cfg) w1")
          show ?thesis
          proof (cases r2)
            case (Inl e)
            with cfg rcp f prods ne s show ?thesis by (simp add: main_def exit_status_def Let_def)
          next
            case (Inr digest)
            note digest = this
            obtain r3 w3 where m: "send_digest sv digest (config_recipients cfg) (config_from_email cfg)
                                     (config_subject_prefix cfg) None w2 = (r3, w3)"
              by (cases "send_digest sv digest (config_recipients cfg) (config_from_email cfg)
                           (config_subject_prefix cfg) None w2")
            show ?thesis
            proof (cases r3)
              case (Inl e)
              with cfg rcp f prods ne s digest m show ?thesis
                by (simp add: main_def exit_status_def Let_def)
            next
              case (Inr results)
              from main_after_send [OF cfg rcp f [unfolded prods] ne s [unfolded digest] m [unfolded Inr]]
              have "fst (main sv w) =
                      Inr (if list_all succeeded
                             (delivery_replies sv
                                (map (digest_params sv digest (config_from_email cfg) (config_subject_prefix cfg) w2)
                                   (config_recipients cfg)) w2)
                           then 0 else 1)" .
              with cfg rcp f prods ne s digest m Inr show ?thesis
                by (simp add: exit_status_def)
            qed
          qed
        qed
      qed
    qed
  qed
  from status empty show ?thesis by blast
qed


theorem driver_exit_status_witness:
  "exit_status (fst (main all_sent_services empty_world)) = 0 \<and>
   (\<exists>cfg prods w1.
      load_config all_sent_services ''config.yaml'' = Inr cfg \<and> config_recipients cfg \<noteq> [] \<and>
      fetch_products all_sent_services (config_base_url cfg) (config_product_count cfg) empty_world
        = (Inr prods, w1) \<and>
      (prods = [] \<or>
       (\<exists>digest w2 results w3.
          summarize_products all_sent_services prods None (config_model_name cfg) w1 = (Inr digest, w2) \<and>
          send_digest all_sent_services digest (config_recipients cfg) (config_from_email cfg)
            (config_subject_prefix cfg) None w2 = (Inr results, w3) \<and>
          list_all succeeded
            (delivery_replies all_sent_services
               (map (digest_params all_sent_services digest (config_from_email cfg)
                       (config_subject_prefix cfg) w2)
                  (config_recipients cfg)) w2)))) \<and>
   exit_status (fst (main one_failed_services empty_world)) = 1 \<and>
   load_config empty_page_services ''config.yaml'' = Inr demo_config \<and>
   config_recipients demo_config \<noteq> [] \<and>
   fetch_products empty_page_services (config_base_url demo_config) (config_product_count demo_config)
     empty_world = (Inr [], fetched_world) \<and>
   main empty_page_services empty_world = (Inr 0, fetched_world) \<and>
   llm_log fetched_world = llm_log empty_world \<and> mail_log fetched_world = mail_log empty_world"
proof -
  have e0: "exit_status (fst (main all_sent_services empty_world)) = 0"
    by code_simp
  note t0 = driver_exit_status [of all_sent_services empty_world]
  from t0 e0 have x: "\<exists>cfg prods w1.
      load_config all_sent_services ''config.yaml'' = Inr cfg \<and> config_recipients cfg \<noteq> [] \<and>
      fetch_products all_sent_services (config_base_url cfg) (config_product_count cfg) empty_world
        = (Inr prods, w1) \<and>
      (prods = [] \<or>
       (\<exists>digest w2 results w3.
          summarize_products all_sent_services prods None (config_model_name cfg) w1 = (Inr digest, w2) \<and>
          send_digest all_sent_services digest (config_recipients cfg) (config_from_email cfg)
            (config_subject_prefix cfg) None w2 = (Inr results, w3) \<and>
          list_all succeeded
            (delivery_replies all_sent_services
               (map (digest_params all_sent_services digest (config_from_email cfg)
                       (config_subject_prefix cfg) w2)
                  (config_recipients cfg)) w2)))"
    by blast
  have e1: "exit_status (fst (main one_failed_services empty_world)) = 1"
    by code_simp
  have h1: "load_config empty_page_services ''config.yaml'' = Inr demo_config"
    by (simp add: load_config_def empty_page_services_def demo_services_def)
  have h2: "config_recipients demo_config \<noteq> []"
    by (simp add: config_recipients_def demo_config_def)
  have h3: "fetch_products empty_page_services (config_base_url demo_config)
              (config_product_count demo_config) empty_world = (Inr [], fetched_world)"
    by code_simp
  note t2 = driver_exit_status [of empty_page_services empty_world]
  from t2 h1 h2 h3 have y: "main empty_page_services empty_world = (Inr 0, fetched_world) \<and>
      llm_log fetched_world = llm_log empty_world \<and> mail_log fetched_world = mail_log empty_world"
    by blast
  from e0 x e1 h1 h2 h3 y show ?thesis by blast
qed

end
